theory Spec2Isabelle
  imports Complex_Main
begin

section \<open>Errors and JavaScript helpers\<close>

text \<open>
  The exceptions the modelled code can raise. \<open>Error msg\<close> is a plain JavaScript
  \<^verbatim>\<open>new Error(msg)\<close>: it carries no \<^verbatim>\<open>statusCode\<close>. \<open>TypeError\<close> is what calling a
  method on \<^verbatim>\<open>undefined\<close> raises, \<open>ZodError\<close> what \<^verbatim>\<open>schema.parse\<close> raises (with the
  paths of the offending fields), \<open>DbError\<close> what the SQL client raises when a statement
  cannot be executed.
\<close>

datatype error = Error string | TypeError | ZodError "string list" | DbError

text \<open>\<^verbatim>\<open>Array.prototype.join\<close> on an array of strings.\<close>

fun join :: "string \<Rightarrow> string list \<Rightarrow> string" where
  "join sep [] = []"
| "join sep [x] = x"
| "join sep (x # y # ys) = x @ sep @ join sep (y # ys)"

section \<open>lib/auth.ts: tokens, principals, role gate, spending limit\<close>

text \<open>
  \<^verbatim>\<open>AuthenticatedUser\<close> of lib/types.ts. The fields are prefixed with \<open>u_\<close> (\<open>id\<close> and
  \<open>name\<close> are taken in HOL). Optional fields are options, \<open>None\<close> being \<^verbatim>\<open>undefined\<close>.
  Amounts in cents are integers.
\<close>

record AuthenticatedUser =
  u_id :: string
  u_sub :: string
  u_email :: string
  u_name :: "string option"
  u_role :: string
  u_division_id :: "string option"
  u_spending_limit_cents :: int

text \<open>
  The object that \<^verbatim>\<open>jwt.verify\<close> returns is untyped in the source; the record lists the
  fields \<^verbatim>\<open>extractUserFromRequest\<close> reads from it. A field that the signed object does
  not have reads as \<^verbatim>\<open>undefined\<close> (\<open>None\<close>).
\<close>

record jwt_payload =
  p_sub :: string
  p_id :: string
  p_email :: string
  p_name :: "string option"
  p_role :: string
  p_division_id :: "string option"
  p_spending_limit_cents :: "int option"

text \<open>
  Libraries that are not part of the repository are a parameter of the model:
  jsonwebtoken's \<^verbatim>\<open>sign\<close> and \<^verbatim>\<open>verify\<close>, closed over \<^verbatim>\<open>JWT_SECRET\<close> and
  \<^verbatim>\<open>JWT_EXPIRES_IN\<close> (\<open>jwt_verify\<close> returns \<open>Inl\<close> where the library throws: bad
  signature, malformed or expired token); the \<^verbatim>\<open>uuid\<close> and \<^verbatim>\<open>date-time\<close> formats of the
  JSON-schema validator that Fastify runs on a route's \<^verbatim>\<open>schema\<close>; and zod's
  \<^verbatim>\<open>z.string().uuid()\<close>.
\<close>

record libs =
  jwt_sign :: "jwt_payload \<Rightarrow> string"
  jwt_verify :: "string \<Rightarrow> error + jwt_payload"
  ajv_uuid :: "string \<Rightarrow> bool"
  ajv_date_time :: "string \<Rightarrow> bool"
  zod_uuid :: "string \<Rightarrow> bool"

text \<open>The object literal that \<^verbatim>\<open>generateToken\<close> signs: five fields, no name, no limit.\<close>

definition token_payload :: "AuthenticatedUser \<Rightarrow> jwt_payload" where
  "token_payload user =
     \<lparr>p_sub = u_sub user, p_id = u_id user, p_email = u_email user, p_name = None,
      p_role = u_role user, p_division_id = u_division_id user,
      p_spending_limit_cents = None\<rparr>"


definition verifyToken :: "libs \<Rightarrow> string \<Rightarrow> jwt_payload option" where
  "verifyToken L token = (case jwt_verify L token of Inl e \<Rightarrow> None | Inr decoded \<Rightarrow> Some decoded)"

text \<open>\<^verbatim>\<open>decoded.spending_limit_cents || 0\<close>: \<^verbatim>\<open>undefined\<close> and \<^verbatim>\<open>0\<close> are falsy.\<close>

definition or_zero :: "int option \<Rightarrow> int" where
  "or_zero v = (case v of None \<Rightarrow> 0 | Some n \<Rightarrow> if n = 0 then 0 else n)"

text \<open>
  A request, as far as the handlers read it: the \<^verbatim>\<open>authorization\<close> header, the route
  parameter \<^verbatim>\<open>id\<close> and the body.
\<close>

record 'b request =
  authorization :: "string option"
  params_id :: string
  body :: 'b

definition extractUserFromRequest :: "libs \<Rightarrow> 'b request \<Rightarrow> AuthenticatedUser option" where
  "extractUserFromRequest L request =
     (case authorization request of
        None \<Rightarrow> None
      | Some authHeader \<Rightarrow>
          if authHeader = [] \<or> take 7 authHeader \<noteq> ''Bearer '' then None
          else (case verifyToken L (drop 7 authHeader) of
                  None \<Rightarrow> None
                | Some decoded \<Rightarrow>
                    Some \<lparr>u_id = p_id decoded, u_sub = p_sub decoded, u_email = p_email decoded,
                          u_name = p_name decoded, u_role = p_role decoded,
                          u_division_id = p_division_id decoded,
                          u_spending_limit_cents = or_zero (p_spending_limit_cents decoded)\<rparr>))"

definition requireAuth :: "libs \<Rightarrow> 'b request \<Rightarrow> error + AuthenticatedUser" where
  "requireAuth L request =
     (case extractUserFromRequest L request of
        None \<Rightarrow> Inl (Error ''Unauthorized: Valid JWT token required'')
      | Some user \<Rightarrow> Inr user)"

definition requireRole :: "AuthenticatedUser \<Rightarrow> string list \<Rightarrow> error + unit" where
  "requireRole user allowedRoles =
     (if u_role user \<in> set allowedRoles then Inr ()
      else Inl (Error (''Forbidden: Requires one of roles: '' @ join '', '' allowedRoles)))"

definition canCreatePurchaseOrder :: "AuthenticatedUser \<Rightarrow> int \<Rightarrow> bool" where
  "canCreatePurchaseOrder user totalCents =
     (if u_role user = ''admin'' then True
      else totalCents \<le> u_spending_limit_cents user)"

text \<open>
  \<^verbatim>\<open>isValidUUID\<close>: the regular expression
  \<^verbatim>\<open>/^[0-9a-f]{8}-[0-9a-f]{4}-[0-9a-f]{4}-[0-9a-f]{4}-[0-9a-f]{12}$/i\<close>, matched position by
  position against a shape string in which \<open>x\<close> stands for one hexadecimal digit.
\<close>

definition is_hex :: "char \<Rightarrow> bool" where
  "is_hex c = (c \<in> set ''0123456789abcdefABCDEF'')"

definition uuid_shape :: string where
  "uuid_shape = ''xxxxxxxx-xxxx-xxxx-xxxx-xxxxxxxxxxxx''"

definition isValidUUID :: "string \<Rightarrow> bool" where
  "isValidUUID uuid =
     list_all2 (\<lambda>p c. if p = CHR ''-'' then c = CHR ''-'' else is_hex c) uuid_shape uuid"


text \<open>
  The permission helpers of lib/auth.ts are defined below, after the store they query.
\<close>

section \<open>lib/db.ts: the store, its statements and the audit helpers\<close>

text \<open>
  The relational store, table by table, with the columns that the modelled statements
  read or write. \<open>deleted_at\<close> is \<open>None\<close> for SQL \<^verbatim>\<open>NULL\<close>. Money amounts and
  quantities are rationals; timestamps are the strings the code passes on.
\<close>

record po_row =
  po_id :: string
  po_number :: string
  po_supplier_id :: string
  po_status :: string
  po_order_date :: string
  po_expected_delivery_date :: "string option"
  po_total_amount :: rat
  po_currency :: string
  po_notes :: "string option"
  po_created_at :: string
  po_updated_at :: string
  po_created_by :: string
  po_updated_by :: string
  po_deleted_at :: "string option"

record item_row =
  it_id :: string
  it_purchase_order_id :: string
  it_description :: string
  it_quantity :: rat
  it_unit_price :: rat
  it_total_price :: rat
  it_notes :: "string option"
  it_created_at :: string
  it_updated_at :: string
  it_created_by :: string
  it_updated_by :: string
  it_deleted_at :: "string option"

record supplier_row =
  s_id :: string
  s_deleted_at :: "string option"

record user_row =
  usr_id :: string
  usr_deleted_at :: "string option"

record role_row =
  r_id :: string
  r_deleted_at :: "string option"

record permission_row =
  pm_id :: string
  pm_name :: string
  pm_deleted_at :: "string option"

record user_role_row =
  ur_user_id :: string
  ur_role_id :: string
  ur_deleted_at :: "string option"

record role_permission_row =
  rp_role_id :: string
  rp_permission_id :: string
  rp_deleted_at :: "string option"

text \<open>
  \<open>online\<close> says whether the store can be reached: when it cannot, every statement
  throws.
\<close>

record store =
  online :: bool
  purchase_orders :: "po_row list"
  purchase_order_items :: "item_row list"
  suppliers :: "supplier_row list"
  users :: "user_row list"
  roles :: "role_row list"
  permissions :: "permission_row list"
  user_roles :: "user_role_row list"
  role_permissions :: "role_permission_row list"

definition sql_result :: "store \<Rightarrow> 'a \<Rightarrow> error + 'a" where
  "sql_result st rows = (if online st then Inr rows else Inl DbError)"

text \<open>
  What a request reads from its environment: the clock and \<^verbatim>\<open>crypto.randomUUID\<close>, at
  the k-th call of an audit helper.
\<close>

record env =
  now_at :: "nat \<Rightarrow> string"
  uuid_at :: "nat \<Rightarrow> string"

text \<open>\<^verbatim>\<open>userId || 'system'\<close> of the audit helpers: the empty string is falsy.\<close>

definition audit_user :: "string \<Rightarrow> string" where
  "audit_user userId = (if userId = [] then ''system'' else userId)"

section \<open>lib/auth.ts: permission resolution\<close>

text \<open>
  The query of \<^verbatim>\<open>getUserPermissions\<close>: users joined with user_roles, role_permissions
  and permissions, the four \<^verbatim>\<open>deleted_at IS NULL\<close> tests, \<^verbatim>\<open>SELECT DISTINCT p.name\<close>.
  The table roles is not part of the join.
\<close>

definition permissions_query :: "store \<Rightarrow> string \<Rightarrow> error + string list" where
  "permissions_query st userId =
     sql_result st (remdups
       [pm_name p.
          u \<leftarrow> users st, ur \<leftarrow> user_roles st, rp \<leftarrow> role_permissions st, p \<leftarrow> permissions st,
          usr_id u = ur_user_id ur, ur_role_id ur = rp_role_id rp, rp_permission_id rp = pm_id p,
          usr_id u = userId, usr_deleted_at u = None, ur_deleted_at ur = None,
          rp_deleted_at rp = None, pm_deleted_at p = None])"

definition getUserPermissions :: "store \<Rightarrow> string \<Rightarrow> string list" where
  "getUserPermissions st userId =
     (case permissions_query st userId of Inl e \<Rightarrow> [] | Inr names \<Rightarrow> names)"

definition hasPermission :: "store \<Rightarrow> string \<Rightarrow> string \<Rightarrow> bool" where
  "hasPermission st userId permission = (permission \<in> set (getUserPermissions st userId))"

definition requirePermission :: "store \<Rightarrow> string \<Rightarrow> string \<Rightarrow> error + unit" where
  "requirePermission st userId permission =
     (if \<not> hasPermission st userId permission
      then Inl (Error (''Forbidden: Missing required permission: '' @ permission))
      else Inr ())"

text \<open>
  The specification's reading of the same resolution, for comparison with the query:
  the roles a user holds through live user-role rows, the permission names a role
  reaches through live role-permission rows and live permission rows, and whether the
  role row itself is live.
\<close>

definition held_role_ids :: "store \<Rightarrow> string \<Rightarrow> string list" where
  "held_role_ids st userId =
     [ur_role_id ur. ur \<leftarrow> user_roles st, ur_user_id ur = userId, ur_deleted_at ur = None]"

definition role_permission_names :: "store \<Rightarrow> string \<Rightarrow> string list" where
  "role_permission_names st roleId =
     [pm_name p. rp \<leftarrow> role_permissions st, p \<leftarrow> permissions st,
        rp_role_id rp = roleId, rp_deleted_at rp = None,
        pm_id p = rp_permission_id rp, pm_deleted_at p = None]"

definition role_is_live :: "store \<Rightarrow> string \<Rightarrow> bool" where
  "role_is_live st roleId = (\<exists>r \<in> set (roles st). r_id r = roleId \<and> r_deleted_at r = None)"

definition user_is_live :: "store \<Rightarrow> string \<Rightarrow> bool" where
  "user_is_live st userId = (\<exists>u \<in> set (users st). usr_id u = userId \<and> usr_deleted_at u = None)"

definition spec_permission_set :: "store \<Rightarrow> string \<Rightarrow> string set" where
  "spec_permission_set st userId =
     set (concat (map (role_permission_names st) (filter (role_is_live st) (held_role_ids st userId))))"

section \<open>routes/purchase-orders.ts\<close>

text \<open>
  A reply is a status code and a JSON body. The bodies the two modelled routes send:
  \<^verbatim>\<open>{error}\<close>, zod's \<^verbatim>\<open>{error: 'Validation error', details}\<close>, the global error
  handler's \<^verbatim>\<open>{error: 'Validation Error', details}\<close> for a request that fails the route's
  JSON schema, \<^verbatim>\<open>{message}\<close>, and \<^verbatim>\<open>{purchase_order: {...newPO, items}}\<close> (the rows are
  carried whole; the statement returns a subset of their columns).
\<close>

datatype reply_body =
    ErrorBody string
  | ZodValidationBody "string list"
  | SchemaValidationBody
  | MessageBody string
  | PurchaseOrderBody po_row "item_row list"

type_synonym reply = "nat \<times> reply_body"

text \<open>How a stretch of a handler ends: it throws, it returns a reply, or it goes on.\<close>

datatype 'a outcome = Throws error | Replies reply | Continues 'a

definition po_statuses :: "string list" where
  "po_statuses = [''draft'', ''pending'', ''approved'', ''ordered'', ''received'', ''cancelled'']"

subsection \<open>Creating a purchase order\<close>

text \<open>
  The body of a create request. The fields that the route's schema requires are plain,
  the others optional. A body that lacks a required field or has a field of the wrong
  JSON type is refused before the handler runs and is not represented. Lengths are in
  characters.
\<close>

record item_input =
  i_description :: string
  i_quantity :: rat
  i_unit_price :: rat
  i_total_price :: rat
  i_notes :: "string option"

record create_body =
  b_po_number :: string
  b_supplier_id :: string
  b_status :: "string option"
  b_order_date :: string
  b_expected_delivery_date :: "string option"
  b_total_amount :: rat
  b_currency :: "string option"
  b_notes :: "string option"
  b_items :: "item_input list"

text \<open>
  The route's \<^verbatim>\<open>schema.body\<close>, which Fastify checks before the handler and whose
  \<^verbatim>\<open>default\<close> it writes into the body.
\<close>

definition schema_item_ok :: "item_input \<Rightarrow> bool" where
  "schema_item_ok it =
     (1 \<le> length (i_description it) \<and> 1 \<le> i_quantity it
      \<and> 0 \<le> i_unit_price it \<and> 0 \<le> i_total_price it)"

definition create_schema_validate :: "libs \<Rightarrow> create_body \<Rightarrow> create_body option" where
  "create_schema_validate L b =
     (if 1 \<le> length (b_po_number b) \<and> length (b_po_number b) \<le> 100
         \<and> ajv_uuid L (b_supplier_id b)
         \<and> (case b_status b of None \<Rightarrow> True | Some s \<Rightarrow> s \<in> set po_statuses)
         \<and> ajv_date_time L (b_order_date b)
         \<and> (case b_expected_delivery_date b of None \<Rightarrow> True | Some d \<Rightarrow> ajv_date_time L d)
         \<and> 0 \<le> b_total_amount b
         \<and> (case b_currency b of None \<Rightarrow> True | Some c \<Rightarrow> length c = 3)
         \<and> 1 \<le> length (b_items b)
         \<and> list_all schema_item_ok (b_items b)
      then Some (b\<lparr>b_status := Some (case b_status b of None \<Rightarrow> ''draft'' | Some s \<Rightarrow> s)\<rparr>)
      else None)"

text \<open>
  \<^verbatim>\<open>createPurchaseOrderSchema.parse\<close>: the zod schema, with its own defaults for status
  and currency. The issues of a \<open>ZodError\<close> are reduced to the names of the offending
  fields. The two dates, which the schema turns into \<^verbatim>\<open>Date\<close> objects, are carried as the
  strings they are read from.
\<close>

record create_data =
  d_po_number :: string
  d_supplier_id :: string
  d_status :: string
  d_order_date :: string
  d_expected_delivery_date :: "string option"
  d_total_amount :: rat
  d_currency :: string
  d_notes :: "string option"
  d_items :: "item_input list"

definition zod_item_ok :: "item_input \<Rightarrow> bool" where
  "zod_item_ok it =
     (1 \<le> length (i_description it) \<and> 1 \<le> i_quantity it
      \<and> 0 \<le> i_unit_price it \<and> 0 \<le> i_total_price it)"

definition zod_issues :: "libs \<Rightarrow> create_body \<Rightarrow> string list" where
  "zod_issues L b =
     (if 1 \<le> length (b_po_number b) \<and> length (b_po_number b) \<le> 100 then [] else [''po_number''])
     @ (if zod_uuid L (b_supplier_id b) then [] else [''supplier_id''])
     @ (case b_status b of None \<Rightarrow> [] | Some s \<Rightarrow> if s \<in> set po_statuses then [] else [''status''])
     @ (if 0 \<le> b_total_amount b then [] else [''total_amount''])
     @ (case b_currency b of None \<Rightarrow> [] | Some c \<Rightarrow> if length c = 3 then [] else [''currency''])
     @ (if list_all zod_item_ok (b_items b) then [] else [''items''])"

definition createPurchaseOrderSchema_parse :: "libs \<Rightarrow> create_body \<Rightarrow> error + create_data" where
  "createPurchaseOrderSchema_parse L b =
     (if zod_issues L b \<noteq> [] then Inl (ZodError (zod_issues L b))
      else Inr \<lparr>d_po_number = b_po_number b, d_supplier_id = b_supplier_id b,
                d_status = (case b_status b of None \<Rightarrow> ''draft'' | Some s \<Rightarrow> s),
                d_order_date = b_order_date b,
                d_expected_delivery_date = b_expected_delivery_date b,
                d_total_amount = b_total_amount b,
                d_currency = (case b_currency b of None \<Rightarrow> ''USD'' | Some c \<Rightarrow> c),
                d_notes = b_notes b, d_items = b_items b\<rparr>)"

text \<open>
  The statements of the create handler. An optional field that the request leaves out is
  stored as \<^verbatim>\<open>NULL\<close>.
\<close>

definition select_po_by_number :: "store \<Rightarrow> string \<Rightarrow> error + po_row option" where
  "select_po_by_number st n =
     sql_result st (find (\<lambda>r. po_number r = n \<and> po_deleted_at r = None) (purchase_orders st))"

definition select_supplier :: "store \<Rightarrow> string \<Rightarrow> error + supplier_row option" where
  "select_supplier st sid =
     sql_result st (find (\<lambda>s. s_id s = sid \<and> s_deleted_at s = None) (suppliers st))"

definition insert_po :: "store \<Rightarrow> po_row \<Rightarrow> error + po_row \<times> store" where
  "insert_po st row =
     (if online st then Inr (row, st\<lparr>purchase_orders := purchase_orders st @ [row]\<rparr>)
      else Inl DbError)"

definition insert_item :: "store \<Rightarrow> item_row \<Rightarrow> error + item_row \<times> store" where
  "insert_item st row =
     (if online st then Inr (row, st\<lparr>purchase_order_items := purchase_order_items st @ [row]\<rparr>)
      else Inl DbError)"

text \<open>
  The loop over \<^verbatim>\<open>data.items\<close>; \<open>k\<close> counts the calls of \<^verbatim>\<open>withCreateAudit\<close> made so
  far in the request.
\<close>

fun insert_items ::
  "env \<Rightarrow> string \<Rightarrow> string \<Rightarrow> nat \<Rightarrow> item_input list \<Rightarrow> store \<Rightarrow> (error + item_row list) \<times> store"
where
  "insert_items E poId userId k [] st = (Inr [], st)"
| "insert_items E poId userId k (item # rest) st =
     (case insert_item st
             \<lparr>it_id = uuid_at E k, it_purchase_order_id = poId,
              it_description = i_description item, it_quantity = i_quantity item,
              it_unit_price = i_unit_price item, it_total_price = i_total_price item,
              it_notes = i_notes item,
              it_created_at = now_at E k, it_updated_at = now_at E k,
              it_created_by = audit_user userId, it_updated_by = audit_user userId,
              it_deleted_at = None\<rparr> of
        Inl e \<Rightarrow> (Inl e, st)
      | Inr (newItem, st') \<Rightarrow>
          (case insert_items E poId userId (Suc k) rest st' of
             (Inl e, st'') \<Rightarrow> (Inl e, st'')
           | (Inr items, st'') \<Rightarrow> (Inr (newItem # items), st'')))"

text \<open>
  The \<^verbatim>\<open>try\<close> block of the create handler: \<open>Inl\<close> is a throw, \<open>Inr\<close> a reply, both
  with the store as it is by then.
\<close>

definition create_try :: "libs \<Rightarrow> env \<Rightarrow> store \<Rightarrow> create_body request \<Rightarrow> (error + reply) \<times> store" where
  "create_try L E st request =
     (case requireAuth L request of
        Inl e \<Rightarrow> (Inl e, st)
      | Inr user \<Rightarrow>
     (case requireRole user [''admin'', ''manager''] of
        Inl e \<Rightarrow> (Inl e, st)
      | Inr _ \<Rightarrow>
     (case createPurchaseOrderSchema_parse L (body request) of
        Inl e \<Rightarrow> (Inl e, st)
      | Inr data \<Rightarrow>
     (case select_po_by_number st (d_po_number data) of
        Inl e \<Rightarrow> (Inl e, st)
      | Inr (Some existingPO) \<Rightarrow>
          (Inr (400, ErrorBody ''Purchase order number already exists''), st)
      | Inr None \<Rightarrow>
     (case select_supplier st (d_supplier_id data) of
        Inl e \<Rightarrow> (Inl e, st)
      | Inr None \<Rightarrow> (Inr (400, ErrorBody ''Supplier not found''), st)
      | Inr (Some supplier) \<Rightarrow>
     (case insert_po st
             \<lparr>po_id = uuid_at E 0, po_number = d_po_number data,
              po_supplier_id = d_supplier_id data, po_status = d_status data,
              po_order_date = d_order_date data,
              po_expected_delivery_date = d_expected_delivery_date data,
              po_total_amount = d_total_amount data, po_currency = d_currency data,
              po_notes = d_notes data,
              po_created_at = now_at E 0, po_updated_at = now_at E 0,
              po_created_by = audit_user (u_id user), po_updated_by = audit_user (u_id user),
              po_deleted_at = None\<rparr> of
        Inl e \<Rightarrow> (Inl e, st)
      | Inr (newPO, st1) \<Rightarrow>
     (case insert_items E (po_id newPO) (u_id user) 1 (d_items data) st1 of
        (Inl e, st2) \<Rightarrow> (Inl e, st2)
      | (Inr items, st2) \<Rightarrow> (Inr (201, PurchaseOrderBody newPO items), st2))))))))"

text \<open>The handler: the \<^verbatim>\<open>try\<close> block and its \<^verbatim>\<open>catch\<close>.\<close>

definition create_handler :: "libs \<Rightarrow> env \<Rightarrow> store \<Rightarrow> create_body request \<Rightarrow> reply \<times> store" where
  "create_handler L E st request =
     (case create_try L E st request of
        (Inr r, st') \<Rightarrow> (r, st')
      | (Inl (ZodError issues), st') \<Rightarrow> ((400, ZodValidationBody issues), st')
      | (Inl e, st') \<Rightarrow> ((500, ErrorBody ''Failed to create purchase order''), st'))"

text \<open>
  The route: the schema check, answered by the global error handler of app.ts when it
  fails, then the handler on the body with the schema's defaults.
\<close>

definition create_route :: "libs \<Rightarrow> env \<Rightarrow> store \<Rightarrow> create_body request \<Rightarrow> reply \<times> store" where
  "create_route L E st request =
     (case create_schema_validate L (body request) of
        None \<Rightarrow> ((400, SchemaValidationBody), st)
      | Some b \<Rightarrow> create_handler L E st (request\<lparr>body := b\<rparr>))"

text \<open>
  The create handler once more, cut at the \<^verbatim>\<open>await\<close> between its reads and its writes.
  \<open>create_check\<close> is the handler up to the two \<^verbatim>\<open>SELECT\<close>s, \<open>create_write\<close> the
  \<^verbatim>\<open>INSERT\<close>s, \<open>create_catch\<close> the \<^verbatim>\<open>catch\<close> block, and \<open>create_complete\<close> the rest of
  the handler from the outcome of the first part, on the store as it is by then. That
  the parts make up the handler is proved below.
\<close>

definition create_check ::
  "libs \<Rightarrow> store \<Rightarrow> create_body request \<Rightarrow> (AuthenticatedUser \<times> create_data) outcome"
where
  "create_check L st request =
     (case requireAuth L request of
        Inl e \<Rightarrow> Throws e
      | Inr user \<Rightarrow>
     (case requireRole user [''admin'', ''manager''] of
        Inl e \<Rightarrow> Throws e
      | Inr _ \<Rightarrow>
     (case createPurchaseOrderSchema_parse L (body request) of
        Inl e \<Rightarrow> Throws e
      | Inr data \<Rightarrow>
     (case select_po_by_number st (d_po_number data) of
        Inl e \<Rightarrow> Throws e
      | Inr (Some existingPO) \<Rightarrow>
          Replies (400, ErrorBody ''Purchase order number already exists'')
      | Inr None \<Rightarrow>
     (case select_supplier st (d_supplier_id data) of
        Inl e \<Rightarrow> Throws e
      | Inr None \<Rightarrow> Replies (400, ErrorBody ''Supplier not found'')
      | Inr (Some supplier) \<Rightarrow> Continues (user, data))))))"

definition create_write ::
  "env \<Rightarrow> store \<Rightarrow> AuthenticatedUser \<Rightarrow> create_data \<Rightarrow> (error + reply) \<times> store"
where
  "create_write E st user data =
     (case insert_po st
             \<lparr>po_id = uuid_at E 0, po_number = d_po_number data,
              po_supplier_id = d_supplier_id data, po_status = d_status data,
              po_order_date = d_order_date data,
              po_expected_delivery_date = d_expected_delivery_date data,
              po_total_amount = d_total_amount data, po_currency = d_currency data,
              po_notes = d_notes data,
              po_created_at = now_at E 0, po_updated_at = now_at E 0,
              po_created_by = audit_user (u_id user), po_updated_by = audit_user (u_id user),
              po_deleted_at = None\<rparr> of
        Inl e \<Rightarrow> (Inl e, st)
      | Inr (newPO, st1) \<Rightarrow>
     (case insert_items E (po_id newPO) (u_id user) 1 (d_items data) st1 of
        (Inl e, st2) \<Rightarrow> (Inl e, st2)
      | (Inr items, st2) \<Rightarrow> (Inr (201, PurchaseOrderBody newPO items), st2)))"

definition create_catch :: "error \<Rightarrow> reply" where
  "create_catch e =
     (case e of
        ZodError issues \<Rightarrow> (400, ZodValidationBody issues)
      | _ \<Rightarrow> (500, ErrorBody ''Failed to create purchase order''))"

definition create_complete ::
  "env \<Rightarrow> store \<Rightarrow> (AuthenticatedUser \<times> create_data) outcome \<Rightarrow> reply \<times> store"
where
  "create_complete E st checked =
     (case checked of
        Throws e \<Rightarrow> (create_catch e, st)
      | Replies r \<Rightarrow> (r, st)
      | Continues (user, data) \<Rightarrow>
          (case create_write E st user data of
             (Inl e, st') \<Rightarrow> (create_catch e, st')
           | (Inr r, st') \<Rightarrow> (r, st')))"

text \<open>
  Two create requests A and B on the same store whose statements interleave: both run
  their reads on the store as they find it, then A writes, then B writes.
\<close>

definition create_race ::
  "libs \<Rightarrow> env \<Rightarrow> env \<Rightarrow> store \<Rightarrow> create_body request \<Rightarrow> create_body request
     \<Rightarrow> reply \<times> reply \<times> store"
where
  "create_race L EA EB st requestA requestB =
     (let checkedA = create_check L st requestA;
          checkedB = create_check L st requestB;
          (replyA, st1) = create_complete EA st checkedA;
          (replyB, st2) = create_complete EB st1 checkedB
      in (replyA, replyB, st2))"

subsection \<open>Changing the status of a purchase order\<close>

record status_body =
  new_status :: string

definition status_schema_ok :: "libs \<Rightarrow> status_body request \<Rightarrow> bool" where
  "status_schema_ok L request =
     (ajv_uuid L (params_id request) \<and> new_status (body request) \<in> set po_statuses)"

text \<open>
  The table \<^verbatim>\<open>validTransitions\<close> and the test
  \<^verbatim>\<open>validTransitions[current].includes(status)\<close>. For a current status that is not a key
  of the table the lookup gives no array, and calling \<^verbatim>\<open>includes\<close> on it throws.
\<close>

definition validTransitions :: "(string \<times> string list) list" where
  "validTransitions =
     [(''draft'', [''pending'', ''cancelled'']),
      (''pending'', [''approved'', ''cancelled'']),
      (''approved'', [''ordered'', ''cancelled'']),
      (''ordered'', [''received'', ''cancelled'']),
      (''received'', []),
      (''cancelled'', [])]"

definition transition_check :: "string \<Rightarrow> string \<Rightarrow> error + bool" where
  "transition_check current_status status =
     (case map_of validTransitions current_status of
        None \<Rightarrow> Inl TypeError
      | Some allowed \<Rightarrow> Inr (status \<in> set allowed))"

definition select_po_by_id :: "store \<Rightarrow> string \<Rightarrow> error + po_row option" where
  "select_po_by_id st pid =
     sql_result st (find (\<lambda>r. po_id r = pid \<and> po_deleted_at r = None) (purchase_orders st))"

text \<open>
  \<^verbatim>\<open>UPDATE purchase_orders SET status, updated_at, updated_by WHERE id = ...\<close>: the only
  condition is on the id.
\<close>

definition update_po_status :: "store \<Rightarrow> string \<Rightarrow> string \<Rightarrow> string \<Rightarrow> string \<Rightarrow> error + store" where
  "update_po_status st pid status updated_at updated_by =
     (if online st
      then Inr (st\<lparr>purchase_orders :=
                  map (\<lambda>r. if po_id r = pid
                            then r\<lparr>po_status := status, po_updated_at := updated_at,
                                   po_updated_by := updated_by\<rparr>
                            else r) (purchase_orders st)\<rparr>)
      else Inl DbError)"

text \<open>
  The handler up to the \<^verbatim>\<open>UPDATE\<close>: authentication, role gate, id format, the
  \<^verbatim>\<open>SELECT\<close> of the current status and the transition test.
\<close>

definition status_check :: "libs \<Rightarrow> store \<Rightarrow> status_body request \<Rightarrow> AuthenticatedUser outcome" where
  "status_check L st request =
     (case requireAuth L request of
        Inl e \<Rightarrow> Throws e
      | Inr user \<Rightarrow>
     (case requireRole user [''admin'', ''manager''] of
        Inl e \<Rightarrow> Throws e
      | Inr _ \<Rightarrow>
     (if \<not> isValidUUID (params_id request)
      then Replies (400, ErrorBody ''Invalid purchase order ID format'')
      else
     (case select_po_by_id st (params_id request) of
        Inl e \<Rightarrow> Throws e
      | Inr None \<Rightarrow> Replies (404, ErrorBody ''Purchase order not found'')
      | Inr (Some existingPO) \<Rightarrow>
     (case transition_check (po_status existingPO) (new_status (body request)) of
        Inl e \<Rightarrow> Throws e
      | Inr False \<Rightarrow>
          Replies (400, ErrorBody (''Invalid status transition from '' @ po_status existingPO
                                    @ '' to '' @ new_status (body request)))
      | Inr True \<Rightarrow> Continues user)))))"

text \<open>
  The rest of the handler, from the outcome of the first part: the \<^verbatim>\<open>UPDATE\<close> on the
  store as it is by then, the success message, and the \<^verbatim>\<open>catch\<close>.
\<close>

definition status_complete ::
  "env \<Rightarrow> store \<Rightarrow> status_body request \<Rightarrow> AuthenticatedUser outcome \<Rightarrow> reply \<times> store"
where
  "status_complete E st request checked =
     (case checked of
        Throws e \<Rightarrow> ((500, ErrorBody ''Failed to update purchase order status''), st)
      | Replies r \<Rightarrow> (r, st)
      | Continues user \<Rightarrow>
          (case update_po_status st (params_id request) (new_status (body request))
                  (now_at E 0) (audit_user (u_id user)) of
             Inl e \<Rightarrow> ((500, ErrorBody ''Failed to update purchase order status''), st)
           | Inr st' \<Rightarrow>
               ((200, MessageBody (''Purchase order status updated to ''
                                    @ new_status (body request))), st')))"

definition status_handler :: "libs \<Rightarrow> env \<Rightarrow> store \<Rightarrow> status_body request \<Rightarrow> reply \<times> store" where
  "status_handler L E st request = status_complete E st request (status_check L st request)"

definition status_route :: "libs \<Rightarrow> env \<Rightarrow> store \<Rightarrow> status_body request \<Rightarrow> reply \<times> store" where
  "status_route L E st request =
     (if status_schema_ok L request then status_handler L E st request
      else ((400, SchemaValidationBody), st))"

text \<open>
  Two status requests A and B on the same store whose statements interleave at the
  handler's \<^verbatim>\<open>await\<close>s: both run their first part on the store as they find it, then A
  writes, then B writes. The result is A's reply, B's reply and the final store.
\<close>

definition status_race ::
  "libs \<Rightarrow> env \<Rightarrow> env \<Rightarrow> store \<Rightarrow> status_body request \<Rightarrow> status_body request
     \<Rightarrow> reply \<times> reply \<times> store"
where
  "status_race L EA EB st requestA requestB =
     (let checkedA = status_check L st requestA;
          checkedB = status_check L st requestB;
          (replyA, st1) = status_complete EA st requestA checkedA;
          (replyB, st2) = status_complete EB st1 requestB checkedB
      in (replyA, replyB, st2))"

section \<open>Concrete inputs\<close>

text \<open>
  Inputs on which the theorems below are evaluated: two users, a toy token library that
  knows one token for each of them and checks formats with \<open>isValidUUID\<close>, a clock, a
  store with one supplier and one draft purchase order, and the payload of the
  repository's test-po-post.js.
\<close>

definition admin_user :: AuthenticatedUser where
  "admin_user =
     \<lparr>u_id = ''7f3c2a10-0000-4000-8000-000000000001'', u_sub = ''7f3c2a10-0000-4000-8000-000000000001'',
      u_email = ''ada@example.com'', u_name = Some ''Ada'', u_role = ''admin'',
      u_division_id = None, u_spending_limit_cents = 500000\<rparr>"

definition basic_user :: AuthenticatedUser where
  "basic_user =
     \<lparr>u_id = ''7f3c2a10-0000-4000-8000-000000000002'', u_sub = ''7f3c2a10-0000-4000-8000-000000000002'',
      u_email = ''bob@example.com'', u_name = Some ''Bob'', u_role = ''basic'',
      u_division_id = None, u_spending_limit_cents = 25000\<rparr>"

definition toy_libs :: libs where
  "toy_libs =
     \<lparr>jwt_sign = (\<lambda>p. ''jwt.'' @ p_email p),
      jwt_verify = (\<lambda>t. if t = ''jwt.ada@example.com'' then Inr (token_payload admin_user)
                        else if t = ''jwt.bob@example.com'' then Inr (token_payload basic_user)
                        else Inl (Error ''invalid token'')),
      ajv_uuid = isValidUUID,
      ajv_date_time = (\<lambda>s. s \<noteq> []),
      zod_uuid = isValidUUID\<rparr>"

definition toy_env :: env where
  "toy_env =
     \<lparr>now_at = (\<lambda>k. ''2025-09-26T10:00:00.000Z''),
      uuid_at = (\<lambda>k. if k = 0 then ''0b9d6f6e-0000-4000-8000-0000000000a0''
                      else if k = 1 then ''0b9d6f6e-0000-4000-8000-0000000000a1''
                      else ''0b9d6f6e-0000-4000-8000-0000000000a2'')\<rparr>"

definition draft_po :: po_row where
  "draft_po =
     \<lparr>po_id = ''5d2c8e44-0000-4000-8000-00000000000b'', po_number = ''PO-2025-0001'',
      po_supplier_id = ''123e4567-e89b-12d3-a456-426614174000'', po_status = ''draft'',
      po_order_date = ''2025-09-01T10:00:00Z'', po_expected_delivery_date = None,
      po_total_amount = 100, po_currency = ''USD'', po_notes = None,
      po_created_at = ''2025-09-01T10:00:00.000Z'', po_updated_at = ''2025-09-01T10:00:00.000Z'',
      po_created_by = ''system'', po_updated_by = ''system'', po_deleted_at = None\<rparr>"

definition toy_store :: store where
  "toy_store =
     \<lparr>online = True, purchase_orders = [draft_po], purchase_order_items = [],
      suppliers = [\<lparr>s_id = ''123e4567-e89b-12d3-a456-426614174000'', s_deleted_at = None\<rparr>],
      users = [], roles = [], permissions = [], user_roles = [], role_permissions = []\<rparr>"

definition test_payload :: create_body where
  "test_payload =
     \<lparr>b_po_number = ''PO-2025-TEST-001'',
      b_supplier_id = ''123e4567-e89b-12d3-a456-426614174000'',
      b_status = Some ''draft'', b_order_date = ''2025-09-26T10:00:00Z'',
      b_expected_delivery_date = Some ''2025-10-15T10:00:00Z'',
      b_total_amount = 1250, b_currency = Some ''USD'',
      b_notes = Some ''Test purchase order from Node.js'',
      b_items = [\<lparr>i_description = ''Office Paper - A4, 500 sheets'', i_quantity = 10,
                  i_unit_price = 25, i_total_price = 250, i_notes = Some ''White, 80gsm''\<rparr>,
                 \<lparr>i_description = ''Desk Chair - Ergonomic'', i_quantity = 2,
                  i_unit_price = 500, i_total_price = 1000,
                  i_notes = Some ''Black, adjustable height''\<rparr>]\<rparr>"

definition create_request :: "string option \<Rightarrow> create_body \<Rightarrow> create_body request" where
  "create_request header b = \<lparr>authorization = header, params_id = [], body = b\<rparr>"

definition status_request :: "string option \<Rightarrow> string \<Rightarrow> string \<Rightarrow> status_body request" where
  "status_request header pid s =
     \<lparr>authorization = header, params_id = pid, body = \<lparr>new_status = s\<rparr>\<rparr>"

text \<open>
  A second clock and id supply, for a second request, and what zod's parse makes of the
  test payload.
\<close>

definition second_env :: env where
  "second_env =
     \<lparr>now_at = (\<lambda>k. ''2025-09-26T10:00:00.050Z''),
      uuid_at = (\<lambda>k. if k = 0 then ''0b9d6f6e-0000-4000-8000-0000000000b0''
                      else if k = 1 then ''0b9d6f6e-0000-4000-8000-0000000000b1''
                      else ''0b9d6f6e-0000-4000-8000-0000000000b2'')\<rparr>"

definition test_data :: create_data where
  "test_data =
     \<lparr>d_po_number = ''PO-2025-TEST-001'',
      d_supplier_id = ''123e4567-e89b-12d3-a456-426614174000'',
      d_status = ''draft'', d_order_date = ''2025-09-26T10:00:00Z'',
      d_expected_delivery_date = Some ''2025-10-15T10:00:00Z'',
      d_total_amount = 1250, d_currency = ''USD'',
      d_notes = Some ''Test purchase order from Node.js'',
      d_items = b_items test_payload\<rparr>"













text \<open>
  A store for permission resolution. Ann is a live user whose only role has a
  soft-deleted role row, while the links from her to the role and from the role to the
  live permission \<open>pos:read\<close> are live. Ben is a soft-deleted user whose links to a live
  role and on to \<open>pos:read\<close> are live. Cat is a live user who holds that live role and
  nothing else; no role carries \<open>pos:write\<close>.
\<close>

definition rbac_store :: store where
  "rbac_store =
     \<lparr>online = True, purchase_orders = [], purchase_order_items = [], suppliers = [],
      users = [\<lparr>usr_id = ''ann'', usr_deleted_at = None\<rparr>,
               \<lparr>usr_id = ''ben'', usr_deleted_at = Some ''2025-01-01T00:00:00.000Z''\<rparr>,
               \<lparr>usr_id = ''cat'', usr_deleted_at = None\<rparr>],
      roles = [\<lparr>r_id = ''retired'', r_deleted_at = Some ''2025-01-01T00:00:00.000Z''\<rparr>,
               \<lparr>r_id = ''reader'', r_deleted_at = None\<rparr>],
      permissions = [\<lparr>pm_id = ''p1'', pm_name = ''pos:read'', pm_deleted_at = None\<rparr>,
                     \<lparr>pm_id = ''p2'', pm_name = ''pos:write'', pm_deleted_at = None\<rparr>],
      user_roles = [\<lparr>ur_user_id = ''ann'', ur_role_id = ''retired'', ur_deleted_at = None\<rparr>,
                    \<lparr>ur_user_id = ''ben'', ur_role_id = ''reader'', ur_deleted_at = None\<rparr>,
                    \<lparr>ur_user_id = ''cat'', ur_role_id = ''reader'', ur_deleted_at = None\<rparr>],
      role_permissions =
        [\<lparr>rp_role_id = ''retired'', rp_permission_id = ''p1'', rp_deleted_at = None\<rparr>,
         \<lparr>rp_role_id = ''reader'', rp_permission_id = ''p1'', rp_deleted_at = None\<rparr>]\<rparr>"

text \<open>The pairs that the transition test accepts.\<close>

definition accepts :: "string \<times> string \<Rightarrow> bool" where
  "accepts p = (transition_check (fst p) (snd p) = Inr True)"

text \<open>
  The transition table as the specification prints it: from each of draft, pending,
  approved and ordered one edge forward and one to cancelled.
\<close>

definition spec_edges :: "(string \<times> string) list" where
  "spec_edges =
     [(''draft'', ''pending''), (''draft'', ''cancelled''),
      (''pending'', ''approved''), (''pending'', ''cancelled''),
      (''approved'', ''ordered''), (''approved'', ''cancelled''),
      (''ordered'', ''received''), (''ordered'', ''cancelled'')]"

text \<open>
  The specification's invariant on purchase orders: the number is unique among the rows
  that are not soft-deleted.
\<close>

definition po_numbers_unique :: "store \<Rightarrow> bool" where
  "po_numbers_unique st =
     distinct (map po_number (filter (\<lambda>r. po_deleted_at r = None) (purchase_orders st)))"

section \<open>Helper lemmas\<close>

lemmas toy_defs =
  create_route_def create_schema_validate_def create_request_def test_payload_def
  toy_libs_def isValidUUID_def uuid_shape_def is_hex_def po_statuses_def schema_item_ok_def
  create_handler_def create_try_def requireAuth_def extractUserFromRequest_def
  verifyToken_def token_payload_def admin_user_def basic_user_def requireRole_def or_zero_def
  createPurchaseOrderSchema_parse_def zod_issues_def zod_item_ok_def
  select_po_by_number_def sql_result_def toy_store_def
  draft_po_def select_supplier_def insert_po_def insert_item_def toy_env_def audit_user_def
  status_route_def status_schema_ok_def status_handler_def status_check_def status_complete_def
  status_request_def select_po_by_id_def transition_check_def validTransitions_def
  update_po_status_def status_race_def

lemmas rbac_defs =
  getUserPermissions_def permissions_query_def sql_result_def rbac_store_def
  spec_permission_set_def held_role_ids_def role_permission_names_def role_is_live_def
  user_is_live_def hasPermission_def requirePermission_def

lemma requireAuth_body: "requireAuth L (request\<lparr>body := b\<rparr>) = requireAuth L request"
  by (simp add: requireAuth_def extractUserFromRequest_def)

lemma in_concat_mapI: "a \<in> set xs \<Longrightarrow> x \<in> set (f a) \<Longrightarrow> x \<in> set (concat (map f xs))"
  by auto

subsection \<open>The transition table\<close>

lemma transition_check_accepts:
  "(transition_check cur req = Inr True) = ((cur, req) \<in> set spec_edges)"
  by (auto simp: transition_check_def validTransitions_def spec_edges_def)

lemma transition_check_rejects:
  "cur \<in> set po_statuses \<Longrightarrow> (cur, req) \<notin> set spec_edges \<Longrightarrow> transition_check cur req = Inr False"
  by (auto simp: transition_check_def validTransitions_def spec_edges_def po_statuses_def)

subsection \<open>The permission query\<close>

lemma permissions_query_rows:
  "(x \<in> set
       [pm_name p.
          u \<leftarrow> users st, ur \<leftarrow> user_roles st, rp \<leftarrow> role_permissions st, p \<leftarrow> permissions st,
          usr_id u = ur_user_id ur, ur_role_id ur = rp_role_id rp, rp_permission_id rp = pm_id p,
          usr_id u = userId, usr_deleted_at u = None, ur_deleted_at ur = None,
          rp_deleted_at rp = None, pm_deleted_at p = None]) =
   (\<exists>u\<in>set (users st). \<exists>ur\<in>set (user_roles st). \<exists>rp\<in>set (role_permissions st).
      \<exists>p\<in>set (permissions st).
        usr_id u = ur_user_id ur \<and> ur_role_id ur = rp_role_id rp \<and> rp_permission_id rp = pm_id p \<and>
        usr_id u = userId \<and> usr_deleted_at u = None \<and> ur_deleted_at ur = None \<and>
        rp_deleted_at rp = None \<and> pm_deleted_at p = None \<and> x = pm_name p)"
  (is "?L = ?R")
proof
  assume ?L
  then show ?R by (auto split: if_splits)
next
  assume ?R
  then obtain u ur rp p where h:
      "u \<in> set (users st)" "ur \<in> set (user_roles st)" "rp \<in> set (role_permissions st)"
      "p \<in> set (permissions st)"
      "usr_id u = ur_user_id ur" "ur_role_id ur = rp_role_id rp" "rp_permission_id rp = pm_id p"
      "usr_id u = userId" "usr_deleted_at u = None" "ur_deleted_at ur = None"
      "rp_deleted_at rp = None" "pm_deleted_at p = None" "x = pm_name p"
    by blast
  have row: "x \<in> set (if usr_id u = ur_user_id ur then if ur_role_id ur = rp_role_id rp then
      if rp_permission_id rp = pm_id p then if usr_id u = userId then
      if usr_deleted_at u = None then if ur_deleted_at ur = None then
      if rp_deleted_at rp = None then if pm_deleted_at p = None then [pm_name p]
      else [] else [] else [] else [] else [] else [] else [] else [])"
    using h by simp
  show ?L
    by (rule in_concat_mapI[OF h(1)], rule in_concat_mapI[OF h(2)],
        rule in_concat_mapI[OF h(3)], rule in_concat_mapI[OF h(4)], rule row)
qed

lemma held_roles_rows:
  "(x \<in> set (concat (map (role_permission_names st) (held_role_ids st uid)))) =
   (\<exists>ur\<in>set (user_roles st). \<exists>rp\<in>set (role_permissions st). \<exists>p\<in>set (permissions st).
      ur_user_id ur = uid \<and> ur_role_id ur = rp_role_id rp \<and> rp_permission_id rp = pm_id p \<and>
      ur_deleted_at ur = None \<and> rp_deleted_at rp = None \<and> pm_deleted_at p = None \<and>
      x = pm_name p)"
  (is "?L = ?R")
proof
  assume ?L
  then obtain rid where r:
      "rid \<in> set (held_role_ids st uid)" "x \<in> set (role_permission_names st rid)"
    by auto
  from r(1) obtain ur where u:
      "ur \<in> set (user_roles st)" "ur_user_id ur = uid" "ur_deleted_at ur = None"
      "ur_role_id ur = rid"
    by (auto simp: held_role_ids_def split: if_splits)
  from r(2) obtain rp p where
      "rp \<in> set (role_permissions st)" "p \<in> set (permissions st)"
      "rp_role_id rp = rid" "rp_deleted_at rp = None" "pm_id p = rp_permission_id rp"
      "pm_deleted_at p = None" "x = pm_name p"
    by (auto simp: role_permission_names_def split: if_splits)
  with u show ?R by metis
next
  assume ?R
  then obtain ur rp p where h:
      "ur \<in> set (user_roles st)" "rp \<in> set (role_permissions st)" "p \<in> set (permissions st)"
      "ur_user_id ur = uid" "ur_role_id ur = rp_role_id rp" "rp_permission_id rp = pm_id p"
      "ur_deleted_at ur = None" "rp_deleted_at rp = None" "pm_deleted_at p = None"
      "x = pm_name p"
    by blast
  have held: "ur_role_id ur \<in> set (held_role_ids st uid)"
    unfolding held_role_ids_def by (rule in_concat_mapI[OF h(1)]) (simp add: h(4,7))
  have row: "x \<in> set (if rp_role_id rp = ur_role_id ur then if rp_deleted_at rp = None then
      if pm_id p = rp_permission_id rp then if pm_deleted_at p = None then [pm_name p]
      else [] else [] else [] else [])"
    using h by simp
  have "x \<in> set (role_permission_names st (ur_role_id ur))"
    unfolding role_permission_names_def
    by (rule in_concat_mapI[OF h(2)], rule in_concat_mapI[OF h(3)], rule row)
  with held show ?L by auto
qed

lemma getUserPermissions_set:
  assumes "online st"
  shows "set (getUserPermissions st uid) =
     (if user_is_live st uid
      then (\<Union>roleId \<in> set (held_role_ids st uid). set (role_permission_names st roleId))
      else {})"
proof -
  have "\<And>x. (x \<in> set (getUserPermissions st uid)) =
      (user_is_live st uid
       \<and> x \<in> set (concat (map (role_permission_names st) (held_role_ids st uid))))"
    unfolding held_roles_rows using assms
    apply (simp only: getUserPermissions_def permissions_query_def sql_result_def if_True
        sum.case set_remdups permissions_query_rows user_is_live_def)
    apply (rule iffI)
     apply metis
    apply metis
    done
  then show ?thesis by (intro set_eqI) simp
qed

subsection \<open>The create handler\<close>

lemma insert_items_purchase_orders:
  "insert_items E poId userId k items st = (r, st') \<Longrightarrow> purchase_orders st' = purchase_orders st"
proof (induction items arbitrary: k st r st')
  case Nil
  then show ?case by auto
next
  case (Cons item rest)
  then show ?case
    by (fastforce simp: insert_item_def split: if_splits sum.splits prod.splits)
qed

lemma select_po_by_number_existing:
  assumes "row \<in> set (purchase_orders st)" "po_number row = n" "po_deleted_at row = None"
  shows "select_po_by_number st n \<noteq> Inr None"
  using assms by (auto simp: select_po_by_number_def sql_result_def find_None_iff)

lemma parse_po_number:
  "createPurchaseOrderSchema_parse L b = Inr data \<Longrightarrow> d_po_number data = b_po_number b"
  by (auto simp: createPurchaseOrderSchema_parse_def split: if_splits)

lemma parse_status:
  "createPurchaseOrderSchema_parse L b = Inr data \<Longrightarrow>
     d_status data = (case b_status b of None \<Rightarrow> ''draft'' | Some s \<Rightarrow> s)
     \<and> d_status data \<in> set po_statuses"
  by (auto simp: createPurchaseOrderSchema_parse_def zod_issues_def po_statuses_def
      split: if_splits option.splits)

lemma schema_validate_po_number:
  "create_schema_validate L b = Some b' \<Longrightarrow> b_po_number b' = b_po_number b"
  by (auto simp: create_schema_validate_def split: if_splits)

lemma schema_validate_status:
  "create_schema_validate L b = Some b' \<Longrightarrow>
     b_status b' = Some (case b_status b of None \<Rightarrow> ''draft'' | Some s \<Rightarrow> s)"
  by (auto simp: create_schema_validate_def split: if_splits)

lemma create_try_duplicate:
  assumes "row \<in> set (purchase_orders st)" "po_number row = b_po_number (body request)"
      "po_deleted_at row = None"
  shows "snd (create_try L E st request) = st \<and> fst (create_try L E st request) \<noteq> Inr (201, x)"
  unfolding create_try_def
  using select_po_by_number_existing[OF assms(1) _ assms(3)]
    parse_po_number[of L "body request"] assms(2)
  by (auto split: sum.splits option.splits)

lemma create_handler_duplicate:
  assumes "row \<in> set (purchase_orders st)" "po_number row = b_po_number (body request)"
      "po_deleted_at row = None"
  shows "snd (create_handler L E st request) = st
     \<and> fst (fst (create_handler L E st request)) \<noteq> 201"
proof -
  obtain out st' where c: "create_try L E st request = (out, st')"
    by (cases "create_try L E st request")
  from create_try_duplicate[OF assms, of L E] c
  have s: "st' = st" and n: "\<And>x. out \<noteq> Inr (201, x)"
    by auto
  show ?thesis
  proof (cases out)
    case (Inl e)
    then show ?thesis using c s by (cases e) (simp_all add: create_handler_def)
  next
    case (Inr r)
    then show ?thesis using c s n[of "snd r"] by (cases r) (auto simp: create_handler_def)
  qed
qed

lemma create_handler_duplicate_reply:
  assumes "row \<in> set (purchase_orders st)" "po_number row = b_po_number (body request)"
      "po_deleted_at row = None"
    and "online st" "requireAuth L request = Inr user" "u_role user \<in> {''admin'', ''manager''}"
      "zod_issues L (body request) = []"
  shows "fst (create_handler L E st request)
     = (400, ErrorBody ''Purchase order number already exists'')"
proof -
  obtain data where p: "createPurchaseOrderSchema_parse L (body request) = Inr data"
    using assms(7) by (simp add: createPurchaseOrderSchema_parse_def)
  have n: "d_po_number data = po_number row" using parse_po_number[OF p] assms(2) by simp
  obtain existing where e: "select_po_by_number st (d_po_number data) = Inr (Some existing)"
    using select_po_by_number_existing[OF assms(1) n[symmetric] assms(3)] assms(4)
    by (auto simp: select_po_by_number_def sql_result_def)
  have r: "requireRole user [''admin'', ''manager''] = Inr ()"
    using assms(6) by (auto simp: requireRole_def)
  show ?thesis
    by (simp add: create_handler_def create_try_def assms(5) r p e)
qed

lemma create_try_201:
  assumes "create_try L E st request = (Inr (201, x), st')"
  shows "\<exists>data newPO. createPurchaseOrderSchema_parse L (body request) = Inr data
      \<and> po_status newPO = d_status data
      \<and> purchase_orders st' = purchase_orders st @ [newPO]"
  using assms unfolding create_try_def
  by (auto simp: insert_po_def split: sum.splits option.splits prod.splits if_splits
        dest: insert_items_purchase_orders)

lemma create_handler_201:
  assumes "fst (fst (create_handler L E st request)) = 201"
  shows "\<exists>x. create_try L E st request = (Inr (201, x), snd (create_handler L E st request))"
proof -
  obtain out s where c: "create_try L E st request = (out, s)"
    by (cases "create_try L E st request")
  show ?thesis
  proof (cases out)
    case (Inl e)
    then show ?thesis using assms c by (cases e) (simp_all add: create_handler_def)
  next
    case (Inr r)
    then show ?thesis using assms c by (cases r) (simp add: create_handler_def)
  qed
qed

lemma select_po_by_number_none:
  assumes "select_po_by_number st n = Inr None"
  shows "\<forall>r \<in> set (purchase_orders st). po_deleted_at r = None \<longrightarrow> po_number r \<noteq> n"
  using assms by (auto simp: select_po_by_number_def sql_result_def find_None_iff split: if_splits)

lemma create_try_store:
  assumes "create_try L E st request = (out, st')"
  shows "purchase_orders st' = purchase_orders st
     \<or> (\<exists>newPO. purchase_orders st' = purchase_orders st @ [newPO]
           \<and> (\<forall>r \<in> set (purchase_orders st).
                 po_deleted_at r = None \<longrightarrow> po_number r \<noteq> po_number newPO))"
  using assms unfolding create_try_def
  by (auto simp: insert_po_def
        split: sum.splits option.splits prod.splits if_splits
        dest!: insert_items_purchase_orders select_po_by_number_none)

lemma create_handler_store:
  "snd (create_handler L E st request) = snd (create_try L E st request)"
proof -
  obtain out s where c: "create_try L E st request = (out, s)"
    by (cases "create_try L E st request")
  show ?thesis
  proof (cases out)
    case (Inl e)
    then show ?thesis using c by (cases e) (simp_all add: create_handler_def)
  next
    case (Inr r)
    then show ?thesis using c by (simp add: create_handler_def)
  qed
qed

lemma po_numbers_unique_append:
  assumes "po_numbers_unique st" "purchase_orders st' = purchase_orders st @ [newPO]"
    "\<forall>r \<in> set (purchase_orders st).
       po_deleted_at r = None \<longrightarrow> po_number r \<noteq> po_number newPO"
  shows "po_numbers_unique st'"
  using assms by (auto simp: po_numbers_unique_def)

lemma create_route_keeps_unique:
  assumes "po_numbers_unique st"
  shows "po_numbers_unique (snd (create_route L E st request))"
proof (cases "create_schema_validate L (body request)")
  case None
  then show ?thesis using assms by (simp add: create_route_def)
next
  case (Some b)
  obtain out st' where c: "create_try L E st (request\<lparr>body := b\<rparr>) = (out, st')"
    by (cases "create_try L E st (request\<lparr>body := b\<rparr>)")
  have s: "snd (create_route L E st request) = st'"
    using Some c by (simp add: create_route_def create_handler_store)
  from create_try_store[OF c] show ?thesis
  proof
    assume "purchase_orders st' = purchase_orders st"
    then show ?thesis using assms s by (simp add: po_numbers_unique_def)
  next
    assume "\<exists>newPO. purchase_orders st' = purchase_orders st @ [newPO]
           \<and> (\<forall>r \<in> set (purchase_orders st).
                 po_deleted_at r = None \<longrightarrow> po_number r \<noteq> po_number newPO)"
    then show ?thesis using po_numbers_unique_append[OF assms] s by auto
  qed
qed

lemma create_route_duplicate:
  assumes "row \<in> set (purchase_orders st)" "po_deleted_at row = None"
      "po_number row = b_po_number (body request)"
  shows "snd (create_route L E st request) = st
     \<and> fst (fst (create_route L E st request)) \<noteq> 201
     \<and> (online st \<longrightarrow> requireAuth L request = Inr user
          \<longrightarrow> u_role user \<in> {''admin'', ''manager''}
          \<longrightarrow> create_schema_validate L (body request) = Some b \<longrightarrow> zod_issues L b = []
          \<longrightarrow> fst (create_route L E st request)
                = (400, ErrorBody ''Purchase order number already exists''))"
proof (cases "create_schema_validate L (body request)")
  case None
  then show ?thesis by (simp add: create_route_def)
next
  case (Some b')
  have n: "po_number row = b_po_number (body (request\<lparr>body := b'\<rparr>))"
    using schema_validate_po_number[OF Some] assms(3) by simp
  show ?thesis
    using create_handler_duplicate[OF assms(1) n assms(2), of L E]
      create_handler_duplicate_reply[OF assms(1) n assms(2), of L user E]
    by (auto simp: create_route_def Some requireAuth_body)
qed

subsection \<open>The status handler\<close>

lemma update_po_status_statuses:
  assumes "online st"
  shows "\<exists>st'. update_po_status st pid s t who = Inr st'
     \<and> map po_status (purchase_orders st')
         = map (\<lambda>r. if po_id r = pid then s else po_status r) (purchase_orders st)"
  using assms by (simp add: update_po_status_def comp_def if_distrib cong: if_cong)

lemma status_check_replies: "status_check L st request = Replies r \<Longrightarrow> fst r \<noteq> 200"
  by (auto simp: status_check_def split: sum.splits option.splits if_splits bool.splits)

lemma status_check_continues:
  assumes "status_check L st request = Continues user"
  shows "online st \<and> requireAuth L request = Inr user
     \<and> (\<exists>row. find (\<lambda>r. po_id r = params_id request \<and> po_deleted_at r = None)
                 (purchase_orders st) = Some row
          \<and> transition_check (po_status row) (new_status (body request)) = Inr True)"
  using assms
  by (auto simp: status_check_def select_po_by_id_def sql_result_def
      split: sum.splits option.splits if_splits bool.splits)

lemma status_handler_200:
  assumes "fst (fst (status_handler L E st request)) = 200"
  shows "\<exists>row. find (\<lambda>r. po_id r = params_id request \<and> po_deleted_at r = None)
                 (purchase_orders st) = Some row
          \<and> transition_check (po_status row) (new_status (body request)) = Inr True"
proof (cases "status_check L st request")
  case (Throws e)
  then show ?thesis using assms by (simp add: status_handler_def status_complete_def)
next
  case (Replies r)
  then show ?thesis using assms status_check_replies[OF Replies]
    by (simp add: status_handler_def status_complete_def)
next
  case (Continues user)
  then show ?thesis using status_check_continues[OF Continues] by simp
qed

lemma status_race_both:
  assumes "status_check L st requestA = Continues userA"
      "status_check L st requestB = Continues userB"
  shows "fst (status_race L EA EB st requestA requestB)
         = (200, MessageBody (''Purchase order status updated to '' @ new_status (body requestA)))
       \<and> fst (snd (status_race L EA EB st requestA requestB))
         = (200, MessageBody (''Purchase order status updated to '' @ new_status (body requestB)))
       \<and> map po_status (purchase_orders (snd (snd (status_race L EA EB st requestA requestB))))
         = map (\<lambda>r. if po_id r = params_id requestB then new_status (body requestB)
                    else if po_id r = params_id requestA then new_status (body requestA)
                    else po_status r) (purchase_orders st)"
proof -
  have "online st" using status_check_continues[OF assms(1)] by simp
  then show ?thesis
    by (simp add: status_race_def status_complete_def assms update_po_status_def comp_def
        if_distrib cong: if_cong)
qed

text \<open>
  What the handler does with the outcome of the test, for a request that has passed
  authentication, the role gate and the id check and whose purchase order is live with a
  status among the six values: along an edge of the table it writes the status and
  answers 200, otherwise it answers 400 with both statuses and leaves the store alone.
\<close>

lemma status_handler_follows_table:
  assumes "requireAuth L request = Inr user" "u_role user \<in> {''admin'', ''manager''}"
      "isValidUUID (params_id request)" "online st"
      "find (\<lambda>r. po_id r = params_id request \<and> po_deleted_at r = None) (purchase_orders st)
         = Some row"
      "po_status row \<in> set po_statuses"
  shows "status_handler L E st request =
     (if (po_status row, new_status (body request)) \<in> set spec_edges
      then ((200, MessageBody (''Purchase order status updated to '' @ new_status (body request))),
            st\<lparr>purchase_orders :=
                  map (\<lambda>r. if po_id r = params_id request
                            then r\<lparr>po_status := new_status (body request),
                                   po_updated_at := now_at E 0,
                                   po_updated_by := audit_user (u_id user)\<rparr>
                            else r) (purchase_orders st)\<rparr>)
      else ((400, ErrorBody (''Invalid status transition from '' @ po_status row @ '' to ''
                               @ new_status (body request))), st))"
proof -
  have r: "requireRole user [''admin'', ''manager''] = Inr ()"
    using assms(2) by (auto simp: requireRole_def)
  have s: "select_po_by_id st (params_id request) = Inr (Some row)"
    using assms(4,5) by (simp add: select_po_by_id_def sql_result_def)
  show ?thesis
  proof (cases "(po_status row, new_status (body request)) \<in> set spec_edges")
    case True
    then have "transition_check (po_status row) (new_status (body request)) = Inr True"
      by (simp add: transition_check_accepts)
    then show ?thesis
      using True assms(1,3,4) r s
      by (simp add: status_handler_def status_check_def status_complete_def update_po_status_def)
  next
    case False
    then have "transition_check (po_status row) (new_status (body request)) = Inr False"
      using transition_check_rejects[OF assms(6)] by simp
    then show ?thesis
      using False assms(1,3,4) r s
      by (simp add: status_handler_def status_check_def status_complete_def)
  qed
qed

subsection \<open>Failed authentication and failed role gate\<close>

text \<open>
  Both handlers answer an error thrown by \<open>requireAuth\<close> or \<open>requireRole\<close> from their
  own \<^verbatim>\<open>catch\<close>, with status 500, whatever the request and the store.
\<close>

lemma create_handler_unauthenticated:
  assumes "extractUserFromRequest L request = None"
  shows "create_handler L E st request = ((500, ErrorBody ''Failed to create purchase order''), st)"
  using assms by (simp add: create_handler_def create_try_def requireAuth_def)

lemma create_handler_forbidden:
  assumes "requireAuth L request = Inr user" "u_role user \<notin> {''admin'', ''manager''}"
  shows "create_handler L E st request = ((500, ErrorBody ''Failed to create purchase order''), st)"
  using assms by (simp add: create_handler_def create_try_def requireRole_def)

lemma status_handler_unauthenticated:
  assumes "extractUserFromRequest L request = None"
  shows "status_handler L E st request
     = ((500, ErrorBody ''Failed to update purchase order status''), st)"
  using assms by (simp add: status_handler_def status_check_def status_complete_def requireAuth_def)

lemma status_handler_forbidden:
  assumes "requireAuth L request = Inr user" "u_role user \<notin> {''admin'', ''manager''}"
  shows "status_handler L E st request
     = ((500, ErrorBody ''Failed to update purchase order status''), st)"
  using assms by (simp add: status_handler_def status_check_def status_complete_def requireRole_def)

subsection \<open>The create handler, cut at its awaits\<close>

lemmas race_defs =
  create_race_def create_check_def create_complete_def create_write_def
  create_catch_def second_env_def test_data_def

lemma create_try_split:
  "create_try L E st request =
     (case create_check L st request of
        Throws e \<Rightarrow> (Inl e, st)
      | Replies r \<Rightarrow> (Inr r, st)
      | Continues (user, data) \<Rightarrow> create_write E st user data)"
  by (simp add: create_try_def create_check_def create_write_def
      split: sum.splits option.splits)

lemma create_handler_split:
  "create_handler L E st request = create_complete E st (create_check L st request)"
proof (cases "create_check L st request")
  case (Throws e)
  then show ?thesis
    by (cases e) (simp_all add: create_handler_def create_try_split create_complete_def create_catch_def)
next
  case (Replies r)
  then show ?thesis
    by (simp add: create_handler_def create_try_split create_complete_def)
next
  case (Continues ud)
  obtain user data where ud: "ud = (user, data)" by (cases ud)
  obtain out st' where w: "create_write E st user data = (out, st')"
    by (cases "create_write E st user data")
  show ?thesis
  proof (cases out)
    case (Inl e)
    then show ?thesis using Continues ud w
      by (cases e) (simp_all add: create_handler_def create_try_split create_complete_def create_catch_def)
  next
    case (Inr r)
    then show ?thesis using Continues ud w
      by (simp add: create_handler_def create_try_split create_complete_def)
  qed
qed

lemma insert_items_online:
  assumes "online st"
  shows "\<exists>items st'. insert_items E poId userId k xs st = (Inr items, st') \<and> online st'
     \<and> purchase_orders st' = purchase_orders st"
  using assms
proof (induction xs arbitrary: k st)
  case Nil
  then show ?case by simp
next
  case (Cons x xs)
  let ?st1 = "st\<lparr>purchase_order_items := purchase_order_items st @
      [\<lparr>it_id = uuid_at E k, it_purchase_order_id = poId,
              it_description = i_description x, it_quantity = i_quantity x,
              it_unit_price = i_unit_price x, it_total_price = i_total_price x,
              it_notes = i_notes x,
              it_created_at = now_at E k, it_updated_at = now_at E k,
              it_created_by = audit_user userId, it_updated_by = audit_user userId,
              it_deleted_at = None\<rparr>]\<rparr>"
  have "online ?st1" using Cons.prems by simp
  from Cons.IH[OF this, of "Suc k"] obtain items st' where
    "insert_items E poId userId (Suc k) xs ?st1 = (Inr items, st')" "online st'"
    "purchase_orders st' = purchase_orders ?st1" by blast
  then show ?case using Cons.prems by (simp add: insert_item_def)
qed

lemma create_write_online:
  assumes "online st"
  shows "\<exists>newPO items st'. create_write E st user data = (Inr (201, PurchaseOrderBody newPO items), st')
     \<and> online st' \<and> purchase_orders st' = purchase_orders st @ [newPO]
     \<and> po_number newPO = d_po_number data \<and> po_deleted_at newPO = None"
proof -
  let ?row = "\<lparr>po_id = uuid_at E 0, po_number = d_po_number data,
              po_supplier_id = d_supplier_id data, po_status = d_status data,
              po_order_date = d_order_date data,
              po_expected_delivery_date = d_expected_delivery_date data,
              po_total_amount = d_total_amount data, po_currency = d_currency data,
              po_notes = d_notes data,
              po_created_at = now_at E 0, po_updated_at = now_at E 0,
              po_created_by = audit_user (u_id user), po_updated_by = audit_user (u_id user),
              po_deleted_at = None\<rparr>"
  let ?st1 = "st\<lparr>purchase_orders := purchase_orders st @ [?row]\<rparr>"
  have "online ?st1" using assms by simp
  from insert_items_online[OF this, of E "po_id ?row" "u_id user" 1 "d_items data"]
  obtain items st' where "insert_items E (po_id ?row) (u_id user) 1 (d_items data) ?st1 = (Inr items, st')"
     "online st'" "purchase_orders st' = purchase_orders ?st1" by blast
  then show ?thesis using assms by (simp add: create_write_def insert_po_def)
qed

lemma create_check_continues_online:
  "create_check L st request = Continues ud \<Longrightarrow> online st"
  by (auto simp: create_check_def select_po_by_number_def sql_result_def
      split: sum.splits option.splits if_splits)

lemma create_race_both:
  assumes "create_check L st requestA = Continues (userA, dataA)"
      "create_check L st requestB = Continues (userB, dataB)"
  shows "fst (fst (create_race L EA EB st requestA requestB)) = 201
     \<and> fst (fst (snd (create_race L EA EB st requestA requestB))) = 201
     \<and> (\<exists>rowA rowB. purchase_orders (snd (snd (create_race L EA EB st requestA requestB)))
             = purchase_orders st @ [rowA, rowB]
           \<and> po_number rowA = d_po_number dataA \<and> po_deleted_at rowA = None
           \<and> po_number rowB = d_po_number dataB \<and> po_deleted_at rowB = None)"
proof -
  have on: "online st" using create_check_continues_online[OF assms(1)] .
  from create_write_online[OF on, of EA userA dataA] obtain rowA itemsA st1 where
    a: "create_write EA st userA dataA = (Inr (201, PurchaseOrderBody rowA itemsA), st1)"
       "online st1" "purchase_orders st1 = purchase_orders st @ [rowA]"
       "po_number rowA = d_po_number dataA" "po_deleted_at rowA = None" by blast
  from create_write_online[OF a(2), of EB userB dataB] obtain rowB itemsB st2 where
    b: "create_write EB st1 userB dataB = (Inr (201, PurchaseOrderBody rowB itemsB), st2)"
       "online st2" "purchase_orders st2 = purchase_orders st1 @ [rowB]"
       "po_number rowB = d_po_number dataB" "po_deleted_at rowB = None" by blast
  show ?thesis
    using a b by (simp add: create_race_def create_complete_def assms)
qed

subsection \<open>The token codec\<close>







section \<open>Status transitions\<close>

text \<open>
  C1. The transition test accepts a pair of current and requested status exactly when
  it is an edge of the specification's table, which has eight edges: from draft to
  pending or cancelled, from pending to approved or cancelled, from approved to ordered or
  cancelled, from ordered to received or cancelled. For a current status among the six
  values every other pair is rejected; in particular no status may move to itself,
  nothing leaves received or cancelled, and a requested status outside the six values is
  never accepted.
\<close>

theorem transition_check_accepts_exactly_spec_edges:
  "(transition_check cur req = Inr True) = ((cur, req) \<in> set spec_edges)
   \<and> (cur \<in> set po_statuses \<longrightarrow> (cur, req) \<notin> set spec_edges
        \<longrightarrow> transition_check cur req = Inr False)
   \<and> transition_check cur cur \<noteq> Inr True
   \<and> transition_check ''received'' req = Inr False
   \<and> transition_check ''cancelled'' req = Inr False
   \<and> (req \<notin> set po_statuses \<longrightarrow> transition_check cur req \<noteq> Inr True)
   \<and> length spec_edges = 8"
proof -
  have refl_edge: "(cur, cur) \<notin> set spec_edges" by (auto simp: spec_edges_def)
  have unknown: "req \<notin> set po_statuses \<Longrightarrow> (cur, req) \<notin> set spec_edges"
    by (auto simp: spec_edges_def po_statuses_def)
  have terminal: "(''received'', req) \<notin> set spec_edges" "(''cancelled'', req) \<notin> set spec_edges"
    by (auto simp: spec_edges_def)
  have mem: "''received'' \<in> set po_statuses" "''cancelled'' \<in> set po_statuses"
    by (simp_all add: po_statuses_def)
  show ?thesis
    using refl_edge unknown terminal
      transition_check_rejects[OF mem(1) terminal(1)]
      transition_check_rejects[OF mem(2) terminal(2)]
    by (simp add: transition_check_accepts transition_check_rejects spec_edges_def)
qed

theorem transition_check_accepts_exactly_spec_edges_witness:
  "transition_check ''draft'' ''pending'' = Inr True
   \<and> transition_check ''draft'' ''approved'' = Inr False
   \<and> transition_check ''draft'' ''draft'' = Inr False
   \<and> transition_check ''ordered'' ''shipped'' = Inr False"
  using transition_check_accepts_exactly_spec_edges[of "''draft''" "''pending''"]
    transition_check_accepts_exactly_spec_edges[of "''draft''" "''approved''"]
    transition_check_accepts_exactly_spec_edges[of "''draft''" "''draft''"]
    transition_check_accepts_exactly_spec_edges[of "''ordered''" "''shipped''"]
  by (simp add: spec_edges_def po_statuses_def)

text \<open>
  C1, as stated, speaks of ten edges: the pairs that the test accepts are eight.
\<close>

theorem accepted_pairs_are_eight_not_ten:
  "card (Collect accepts) = 8 \<and> card (Collect accepts) \<noteq> 10"
proof -
  have "Collect accepts = set spec_edges"
    by (auto simp: accepts_def transition_check_accepts)
  moreover have "distinct spec_edges" by (simp add: spec_edges_def)
  moreover have "length spec_edges = 8" by (simp add: spec_edges_def)
  ultimately show ?thesis by (simp add: distinct_card)
qed

section \<open>Role gate\<close>

text \<open>
  C2. The role gate lets a principal through exactly when its role is literally one of
  the listed roles, whatever the role and the list are; there is no ordering of roles, so
  a manager is refused where only admin is listed.
\<close>

theorem requireRole_exact_membership:
  "(requireRole user S = Inr ()) = (u_role user \<in> set S)
   \<and> (requireRole user S = Inl (Error (''Forbidden: Requires one of roles: '' @ join '', '' S)))
       = (u_role user \<notin> set S)
   \<and> requireRole (user\<lparr>u_role := ''manager''\<rparr>) [''admin'']
       = Inl (Error ''Forbidden: Requires one of roles: admin'')"
  by (simp add: requireRole_def)

theorem requireRole_exact_membership_witness:
  "requireRole admin_user [''admin'', ''manager''] = Inr ()
   \<and> requireRole basic_user [''admin'', ''manager'']
       = Inl (Error ''Forbidden: Requires one of roles: admin, manager'')"
  using requireRole_exact_membership[of admin_user "[''admin'', ''manager'']"]
    requireRole_exact_membership[of basic_user "[''admin'', ''manager'']"]
  by (simp add: admin_user_def basic_user_def)

section \<open>Spending-limit gate\<close>

text \<open>
  C3. \<open>canCreatePurchaseOrder\<close> is true for every amount when the role is admin,
  whatever the configured limit; for any other role it is true exactly when the amount
  does not exceed the limit, and an amount equal to the limit is allowed.
\<close>

theorem canCreatePurchaseOrder_spec:
  "(u_role user = ''admin'' \<longrightarrow> canCreatePurchaseOrder user totalCents)
   \<and> (u_role user \<noteq> ''admin'' \<longrightarrow>
        canCreatePurchaseOrder user totalCents = (totalCents \<le> u_spending_limit_cents user))
   \<and> canCreatePurchaseOrder (user\<lparr>u_spending_limit_cents := totalCents\<rparr>) totalCents"
  by (simp add: canCreatePurchaseOrder_def)

theorem canCreatePurchaseOrder_spec_witness:
  "u_role admin_user = ''admin''
   \<and> canCreatePurchaseOrder (admin_user\<lparr>u_spending_limit_cents := 0\<rparr>) 999999
   \<and> u_role basic_user \<noteq> ''admin''
   \<and> canCreatePurchaseOrder basic_user 25000
   \<and> \<not> canCreatePurchaseOrder basic_user 25001"
  using canCreatePurchaseOrder_spec[of "admin_user\<lparr>u_spending_limit_cents := 0\<rparr>" 999999]
    canCreatePurchaseOrder_spec[of basic_user 25000]
    canCreatePurchaseOrder_spec[of basic_user 25001]
  by (simp add: admin_user_def basic_user_def)

section \<open>Permission resolution\<close>

text \<open>
  C4, as the code has it. When the query succeeds, the permissions resolved for a user
  whose own row is live are the union, over the roles the user holds through live
  user-role rows, of the names of the live permissions linked to the role by live
  role-permission rows; for a user whose row is soft-deleted or missing the result is
  empty. \<open>hasPermission\<close> is the membership test on that set. The query does not look
  at the role rows: where every held role has a live row, the result is the set the
  specification describes.
\<close>

theorem getUserPermissions_union_over_held_roles:
  assumes "online st"
  shows "set (getUserPermissions st userId) =
       (if user_is_live st userId
        then (\<Union>roleId \<in> set (held_role_ids st userId). set (role_permission_names st roleId))
        else {})
     \<and> hasPermission st userId p =
         (user_is_live st userId
          \<and> (\<exists>roleId \<in> set (held_role_ids st userId). p \<in> set (role_permission_names st roleId)))
     \<and> (user_is_live st userId
         \<longrightarrow> (\<forall>roleId \<in> set (held_role_ids st userId). role_is_live st roleId)
         \<longrightarrow> set (getUserPermissions st userId) = spec_permission_set st userId)"
proof -
  have all_live: "\<forall>roleId \<in> set (held_role_ids st userId). role_is_live st roleId
      \<Longrightarrow> filter (role_is_live st) (held_role_ids st userId) = held_role_ids st userId"
    by (simp add: filter_id_conv)
  show ?thesis
    using getUserPermissions_set[OF assms, of userId] all_live
    by (auto simp: hasPermission_def spec_permission_set_def)
qed

theorem getUserPermissions_union_over_held_roles_witness:
  "online rbac_store \<and> user_is_live rbac_store ''cat''
   \<and> held_role_ids rbac_store ''cat'' = [''reader''] \<and> role_is_live rbac_store ''reader''
   \<and> set (getUserPermissions rbac_store ''cat'') = spec_permission_set rbac_store ''cat''
   \<and> set (getUserPermissions rbac_store ''cat'') = {''pos:read''}
   \<and> hasPermission rbac_store ''cat'' ''pos:read''
   \<and> \<not> hasPermission rbac_store ''cat'' ''pos:write''"
proof -
  have on: "online rbac_store" by (simp add: rbac_store_def)
  show ?thesis
    using on getUserPermissions_union_over_held_roles[OF on, of "''cat''" "''pos:read''"]
      getUserPermissions_union_over_held_roles[OF on, of "''cat''" "''pos:write''"]
    by (simp add: rbac_store_def held_role_ids_def role_permission_names_def role_is_live_def
        user_is_live_def)
qed

text \<open>
  C4, as stated, fails where a held role's row is soft-deleted while its links are live
  (Ann is granted \<open>pos:read\<close>, which the specification's set does not contain), and
  where the user's own row is soft-deleted (Ben resolves to nothing, while his live role
  carries \<open>pos:read\<close>).
\<close>

theorem getUserPermissions_differs_from_spec_set:
  "getUserPermissions rbac_store ''ann'' = [''pos:read'']
   \<and> hasPermission rbac_store ''ann'' ''pos:read''
   \<and> spec_permission_set rbac_store ''ann'' = {}
   \<and> getUserPermissions rbac_store ''ben'' = []
   \<and> \<not> hasPermission rbac_store ''ben'' ''pos:read''
   \<and> spec_permission_set rbac_store ''ben'' = {''pos:read''}"
  by (simp add: rbac_defs)

text \<open>
  C10. When the permission query throws, \<open>getUserPermissions\<close> returns the empty list
  instead of passing the error on, so \<open>hasPermission\<close> is false for every permission
  and \<open>requirePermission\<close> refuses.
\<close>

theorem permission_resolution_fails_closed:
  "permissions_query st userId = Inl e \<Longrightarrow>
     getUserPermissions st userId = []
     \<and> \<not> hasPermission st userId p
     \<and> requirePermission st userId p
         = Inl (Error (''Forbidden: Missing required permission: '' @ p))"
  by (simp add: getUserPermissions_def hasPermission_def requirePermission_def)

theorem permission_resolution_fails_closed_witness:
  "permissions_query (rbac_store\<lparr>online := False\<rparr>) ''cat'' = Inl DbError
   \<and> getUserPermissions (rbac_store\<lparr>online := False\<rparr>) ''cat'' = []
   \<and> \<not> hasPermission (rbac_store\<lparr>online := False\<rparr>) ''cat'' ''pos:read''
   \<and> requirePermission (rbac_store\<lparr>online := False\<rparr>) ''cat'' ''pos:read''
       = Inl (Error ''Forbidden: Missing required permission: pos:read'')"
proof -
  have h: "permissions_query (rbac_store\<lparr>online := False\<rparr>) ''cat'' = Inl DbError"
    by (simp add: permissions_query_def sql_result_def)
  show ?thesis
    using h permission_resolution_fails_closed[OF h, of "''pos:read''"] by simp
qed

section \<open>Tokens\<close>



section \<open>Authentication and authorization failures\<close>

text \<open>
  C5. On the repository's own test payload, a create request without a token, with a
  token that does not verify, or with the token of a user whose role is not allowed is
  answered with status 500 and the handler's generic message; so is a status request
  without a token or from a role that is not allowed. The error thrown by
  \<open>requireAuth\<close> or \<open>requireRole\<close> is caught by the handler's own \<^verbatim>\<open>catch\<close>.
\<close>

theorem auth_failures_answered_with_500:
  "fst (create_route toy_libs toy_env toy_store (create_request None test_payload))
     = (500, ErrorBody ''Failed to create purchase order'')
   \<and> fst (create_route toy_libs toy_env toy_store
            (create_request (Some ''Bearer dummy-token-for-testing'') test_payload))
     = (500, ErrorBody ''Failed to create purchase order'')
   \<and> fst (create_route toy_libs toy_env toy_store
            (create_request (Some ''Bearer jwt.bob@example.com'') test_payload))
     = (500, ErrorBody ''Failed to create purchase order'')
   \<and> fst (status_route toy_libs toy_env toy_store (status_request None (po_id draft_po) ''pending''))
     = (500, ErrorBody ''Failed to update purchase order status'')
   \<and> fst (status_route toy_libs toy_env toy_store
            (status_request (Some ''Bearer jwt.bob@example.com'') (po_id draft_po) ''pending''))
     = (500, ErrorBody ''Failed to update purchase order status'')"
  by (simp add: toy_defs)

section \<open>Creating purchase orders\<close>

text \<open>
  C6, as the code has it. A purchase order that the create route accepts is appended to
  the table with the status given in the request, which is one of the six values, and
  with draft when the request gives no status.
\<close>

theorem created_po_status_is_requested_or_draft:
  assumes "fst (fst (create_route L E st request)) = 201"
  shows "\<exists>newPO. purchase_orders (snd (create_route L E st request)) = purchase_orders st @ [newPO]
     \<and> po_status newPO = (case b_status (body request) of None \<Rightarrow> ''draft'' | Some s \<Rightarrow> s)
     \<and> po_status newPO \<in> set po_statuses"
proof (cases "create_schema_validate L (body request)")
  case None
  then show ?thesis using assms by (simp add: create_route_def)
next
  case (Some b)
  then have r: "create_route L E st request = create_handler L E st (request\<lparr>body := b\<rparr>)"
    by (simp add: create_route_def)
  with assms obtain x where "create_try L E st (request\<lparr>body := b\<rparr>)
       = (Inr (201, x), snd (create_handler L E st (request\<lparr>body := b\<rparr>)))"
    using create_handler_201 by metis
  from create_try_201[OF this]
  obtain data newPO where d:
      "createPurchaseOrderSchema_parse L b = Inr data" "po_status newPO = d_status data"
      "purchase_orders (snd (create_route L E st request)) = purchase_orders st @ [newPO]"
    using r by auto
  show ?thesis
    using parse_status[OF d(1)] schema_validate_status[OF Some] d(2,3)
    by (auto split: option.splits)
qed

theorem created_po_status_is_requested_or_draft_witness:
  "fst (fst (create_route toy_libs toy_env toy_store
        (create_request (Some ''Bearer jwt.ada@example.com'') (test_payload\<lparr>b_status := None\<rparr>))))
     = 201
   \<and> (\<exists>newPO. purchase_orders (snd (create_route toy_libs toy_env toy_store
        (create_request (Some ''Bearer jwt.ada@example.com'') (test_payload\<lparr>b_status := None\<rparr>))))
          = purchase_orders toy_store @ [newPO] \<and> po_status newPO = ''draft'')"
proof -
  have h: "fst (fst (create_route toy_libs toy_env toy_store
        (create_request (Some ''Bearer jwt.ada@example.com'') (test_payload\<lparr>b_status := None\<rparr>))))
      = 201"
    by (simp add: toy_defs)
  show ?thesis
    using h created_po_status_is_requested_or_draft[OF h] by (auto simp: create_request_def)
qed

text \<open>
  C6, as stated, fails: a create request that asks for status received is accepted and
  the new row is stored with status received.
\<close>

theorem create_with_status_received_is_stored_received:
  "fst (fst (create_route toy_libs toy_env toy_store
        (create_request (Some ''Bearer jwt.ada@example.com'')
           (test_payload\<lparr>b_status := Some ''received''\<rparr>)))) = 201
   \<and> map po_status (purchase_orders (snd (create_route toy_libs toy_env toy_store
        (create_request (Some ''Bearer jwt.ada@example.com'')
           (test_payload\<lparr>b_status := Some ''received''\<rparr>)))))
      = [''draft'', ''received'']"
  by (simp add: toy_defs)

text \<open>
  C7, as the code has it. A create request that runs alone keeps purchase-order numbers
  unique among the rows that are not soft-deleted: when a live purchase order with the
  requested number exists, the request leaves the store as it is and is not answered with
  201, whoever sends it, and a request that passes the schema, authentication, the role
  gate and zod's parse on a reachable store is answered with status 400 and the message
  that the number already exists. The test and the inserts are separate statements: when
  two requests have both passed their tests on the same store, both are answered with 201
  and both rows are inserted, whatever their numbers.
\<close>

theorem create_rejects_duplicate_po_number:
  "(po_numbers_unique st \<longrightarrow> po_numbers_unique (snd (create_route L E st request)))
   \<and> (row \<in> set (purchase_orders st) \<longrightarrow> po_deleted_at row = None
        \<longrightarrow> po_number row = b_po_number (body request)
        \<longrightarrow> snd (create_route L E st request) = st
            \<and> fst (fst (create_route L E st request)) \<noteq> 201
            \<and> (online st \<longrightarrow> requireAuth L request = Inr user
                 \<longrightarrow> u_role user \<in> {''admin'', ''manager''}
                 \<longrightarrow> create_schema_validate L (body request) = Some b \<longrightarrow> zod_issues L b = []
                 \<longrightarrow> fst (create_route L E st request)
                       = (400, ErrorBody ''Purchase order number already exists'')))
   \<and> (create_check L st requestA = Continues (userA, dataA)
        \<longrightarrow> create_check L st requestB = Continues (userB, dataB)
        \<longrightarrow> fst (fst (create_race L EA EB st requestA requestB)) = 201
            \<and> fst (fst (snd (create_race L EA EB st requestA requestB))) = 201
            \<and> (\<exists>rowA rowB.
                  purchase_orders (snd (snd (create_race L EA EB st requestA requestB)))
                    = purchase_orders st @ [rowA, rowB]
                  \<and> po_number rowA = d_po_number dataA \<and> po_deleted_at rowA = None
                  \<and> po_number rowB = d_po_number dataB \<and> po_deleted_at rowB = None))"
  using create_route_keeps_unique[of st L E request]
    create_route_duplicate[of row st request L E user b]
    create_race_both[of L st requestA userA dataA requestB userB dataB EA EB]
  by blast

theorem create_rejects_duplicate_po_number_witness:
  "po_numbers_unique toy_store
   \<and> draft_po \<in> set (purchase_orders toy_store) \<and> po_deleted_at draft_po = None
   \<and> po_number draft_po = ''PO-2025-0001''
   \<and> online toy_store
   \<and> requireAuth toy_libs
        (create_request (Some ''Bearer jwt.ada@example.com'')
           (test_payload\<lparr>b_po_number := ''PO-2025-0001''\<rparr>))
       = Inr (admin_user\<lparr>u_name := None, u_spending_limit_cents := 0\<rparr>)
   \<and> create_schema_validate toy_libs (test_payload\<lparr>b_po_number := ''PO-2025-0001''\<rparr>)
       = Some (test_payload\<lparr>b_po_number := ''PO-2025-0001''\<rparr>)
   \<and> zod_issues toy_libs (test_payload\<lparr>b_po_number := ''PO-2025-0001''\<rparr>) = []
   \<and> create_route toy_libs toy_env toy_store
        (create_request (Some ''Bearer jwt.ada@example.com'')
           (test_payload\<lparr>b_po_number := ''PO-2025-0001''\<rparr>))
       = ((400, ErrorBody ''Purchase order number already exists''), toy_store)
   \<and> create_check toy_libs toy_store
        (create_request (Some ''Bearer jwt.ada@example.com'') test_payload)
       = Continues (admin_user\<lparr>u_name := None, u_spending_limit_cents := 0\<rparr>, test_data)
   \<and> fst (fst (snd (create_race toy_libs toy_env second_env toy_store
        (create_request (Some ''Bearer jwt.ada@example.com'') test_payload)
        (create_request (Some ''Bearer jwt.ada@example.com'') test_payload)))) = 201"
proof -
  let ?req = "create_request (Some ''Bearer jwt.ada@example.com'')
           (test_payload\<lparr>b_po_number := ''PO-2025-0001''\<rparr>)"
  let ?new = "create_request (Some ''Bearer jwt.ada@example.com'') test_payload"
  let ?u = "admin_user\<lparr>u_name := None, u_spending_limit_cents := 0\<rparr>"
  have 1: "draft_po \<in> set (purchase_orders toy_store)" by (simp add: toy_store_def)
  have 2: "po_deleted_at draft_po = None" by (simp add: draft_po_def)
  have 3: "po_number draft_po = b_po_number (body ?req)"
    by (simp add: draft_po_def create_request_def)
  have 4: "online toy_store" by (simp add: toy_store_def)
  have 5: "requireAuth toy_libs ?req = Inr ?u"
    by (simp add: requireAuth_def extractUserFromRequest_def create_request_def toy_libs_def
        verifyToken_def token_payload_def admin_user_def or_zero_def)
  have 6: "u_role ?u \<in> {''admin'', ''manager''}"
    by (simp add: admin_user_def)
  have 7: "create_schema_validate toy_libs (body ?req)
       = Some (test_payload\<lparr>b_po_number := ''PO-2025-0001''\<rparr>)"
    by (simp add: create_schema_validate_def create_request_def test_payload_def toy_libs_def
        isValidUUID_def uuid_shape_def is_hex_def po_statuses_def schema_item_ok_def)
  have 8: "zod_issues toy_libs (test_payload\<lparr>b_po_number := ''PO-2025-0001''\<rparr>) = []"
    by (simp add: zod_issues_def test_payload_def toy_libs_def
        isValidUUID_def uuid_shape_def is_hex_def po_statuses_def zod_item_ok_def)
  have 9: "po_numbers_unique toy_store"
    by (simp add: po_numbers_unique_def toy_store_def)
  have 10: "create_check toy_libs toy_store ?new = Continues (?u, test_data)"
    by (simp add: toy_defs race_defs)
  show ?thesis
    using 1 2 3 4 5 6 7 8 9 10
      create_rejects_duplicate_po_number[of toy_store toy_libs toy_env ?req draft_po ?u
        "test_payload\<lparr>b_po_number := ''PO-2025-0001''\<rparr>" ?new ?u test_data ?new ?u test_data
        toy_env second_env]
    by (simp add: create_request_def prod_eq_iff)
qed

text \<open>
  C7, as stated, fails. Two create requests by an admin with the repository's test
  payload both find no purchase order of that number before either inserts. Both are
  answered with 201, and the table ends with two live rows of the same number: the
  second insert is made while a live purchase order with the requested number exists.
\<close>

theorem create_race_inserts_duplicate:
  "fst (fst (create_race toy_libs toy_env second_env toy_store
        (create_request (Some ''Bearer jwt.ada@example.com'') test_payload)
        (create_request (Some ''Bearer jwt.ada@example.com'') test_payload))) = 201
   \<and> fst (fst (snd (create_race toy_libs toy_env second_env toy_store
        (create_request (Some ''Bearer jwt.ada@example.com'') test_payload)
        (create_request (Some ''Bearer jwt.ada@example.com'') test_payload)))) = 201
   \<and> map po_number (filter (\<lambda>r. po_deleted_at r = None)
        (purchase_orders (snd (snd (create_race toy_libs toy_env second_env toy_store
           (create_request (Some ''Bearer jwt.ada@example.com'') test_payload)
           (create_request (Some ''Bearer jwt.ada@example.com'') test_payload))))))
      = [''PO-2025-0001'', ''PO-2025-TEST-001'', ''PO-2025-TEST-001'']
   \<and> po_numbers_unique toy_store
   \<and> \<not> po_numbers_unique (snd (snd (create_race toy_libs toy_env second_env toy_store
        (create_request (Some ''Bearer jwt.ada@example.com'') test_payload)
        (create_request (Some ''Bearer jwt.ada@example.com'') test_payload))))"
  by (simp add: toy_defs race_defs po_numbers_unique_def)

section \<open>Concurrent status changes\<close>

text \<open>
  C8, as the code has it. The status update is keyed on the id alone: on a reachable
  store it sets the status of every row with that id to the target, whatever status the
  row has. The test of the transition is made beforehand, on the status read by a
  separate statement: a request that runs alone is answered with success only if the
  status it read allows the transition, but when two requests have both passed the test
  on the same store, both are answered with success and the later write stands.
\<close>

theorem status_update_keyed_on_id_only:
  "(online st \<longrightarrow>
      (\<exists>st'. update_po_status st pid s t who = Inr st'
         \<and> map po_status (purchase_orders st')
             = map (\<lambda>r. if po_id r = pid then s else po_status r) (purchase_orders st)))
   \<and> (fst (fst (status_handler L E st request)) = 200 \<longrightarrow>
        (\<exists>row. find (\<lambda>r. po_id r = params_id request \<and> po_deleted_at r = None)
                  (purchase_orders st) = Some row
           \<and> transition_check (po_status row) (new_status (body request)) = Inr True))
   \<and> (status_check L st requestA = Continues userA \<longrightarrow>
      status_check L st requestB = Continues userB \<longrightarrow>
        fst (status_race L EA EB st requestA requestB)
          = (200, MessageBody (''Purchase order status updated to '' @ new_status (body requestA)))
        \<and> fst (snd (status_race L EA EB st requestA requestB))
          = (200, MessageBody (''Purchase order status updated to '' @ new_status (body requestB)))
        \<and> map po_status (purchase_orders (snd (snd (status_race L EA EB st requestA requestB))))
          = map (\<lambda>r. if po_id r = params_id requestB then new_status (body requestB)
                     else if po_id r = params_id requestA then new_status (body requestA)
                     else po_status r) (purchase_orders st))"
  using update_po_status_statuses[of st pid s t who] status_handler_200[of L E st request]
    status_race_both[of L st requestA userA requestB userB EA EB]
  by blast

theorem status_update_keyed_on_id_only_witness:
  "online toy_store
   \<and> fst (fst (status_handler toy_libs toy_env toy_store
        (status_request (Some ''Bearer jwt.ada@example.com'') (po_id draft_po) ''pending''))) = 200
   \<and> find (\<lambda>r. po_id r = po_id draft_po \<and> po_deleted_at r = None) (purchase_orders toy_store)
       = Some draft_po
   \<and> transition_check (po_status draft_po) ''pending'' = Inr True
   \<and> status_check toy_libs toy_store
        (status_request (Some ''Bearer jwt.ada@example.com'') (po_id draft_po) ''pending'')
       = Continues (admin_user\<lparr>u_name := None, u_spending_limit_cents := 0\<rparr>)
   \<and> status_check toy_libs toy_store
        (status_request (Some ''Bearer jwt.ada@example.com'') (po_id draft_po) ''cancelled'')
       = Continues (admin_user\<lparr>u_name := None, u_spending_limit_cents := 0\<rparr>)
   \<and> map po_status (purchase_orders (snd (snd (status_race toy_libs toy_env toy_env toy_store
        (status_request (Some ''Bearer jwt.ada@example.com'') (po_id draft_po) ''pending'')
        (status_request (Some ''Bearer jwt.ada@example.com'') (po_id draft_po) ''cancelled'')))))
       = [''cancelled'']"
proof -
  let ?A = "status_request (Some ''Bearer jwt.ada@example.com'') (po_id draft_po) ''pending''"
  let ?B = "status_request (Some ''Bearer jwt.ada@example.com'') (po_id draft_po) ''cancelled''"
  let ?u = "admin_user\<lparr>u_name := None, u_spending_limit_cents := 0\<rparr>"
  have 1: "online toy_store" by (simp add: toy_store_def)
  have 2: "status_check toy_libs toy_store ?A = Continues ?u"
    by (simp add: toy_defs)
  have 3: "status_check toy_libs toy_store ?B = Continues ?u"
    by (simp add: toy_defs)
  have 4: "fst (fst (status_handler toy_libs toy_env toy_store ?A)) = 200"
    by (simp add: status_handler_def 2 status_complete_def update_po_status_def 1)
  have 5: "find (\<lambda>r. po_id r = po_id draft_po \<and> po_deleted_at r = None) (purchase_orders toy_store)
       = Some draft_po"
    by (simp add: toy_store_def draft_po_def)
  have 6: "transition_check (po_status draft_po) ''pending'' = Inr True"
    by (simp add: draft_po_def transition_check_def validTransitions_def)
  have 7: "map po_status (purchase_orders toy_store) = [''draft'']"
       "map po_id (purchase_orders toy_store) = [po_id draft_po]"
    by (simp_all add: toy_store_def draft_po_def)
  show ?thesis
    using 1 2 3 4 5 6
      status_update_keyed_on_id_only[of toy_store "po_id draft_po" "''pending''"
        "''2025-09-26T10:00:00.000Z''" "''system''" toy_libs toy_env ?A ?A ?u ?B ?u toy_env toy_env]
    by (simp add: status_request_def toy_store_def)
qed

text \<open>
  C8, as stated, fails. Two requests by an admin on the same draft purchase order, one to
  cancelled and one to pending, both pass the test before either writes. Both are
  answered with success, and the second write moves the order from cancelled to pending,
  which the table does not allow; run one after the other, the second write would have
  found the order cancelled.
\<close>

theorem status_race_both_succeed:
  "fst (status_race toy_libs toy_env toy_env toy_store
          (status_request (Some ''Bearer jwt.ada@example.com'') (po_id draft_po) ''cancelled'')
          (status_request (Some ''Bearer jwt.ada@example.com'') (po_id draft_po) ''pending''))
     = (200, MessageBody ''Purchase order status updated to cancelled'')
   \<and> fst (snd (status_race toy_libs toy_env toy_env toy_store
          (status_request (Some ''Bearer jwt.ada@example.com'') (po_id draft_po) ''cancelled'')
          (status_request (Some ''Bearer jwt.ada@example.com'') (po_id draft_po) ''pending'')))
     = (200, MessageBody ''Purchase order status updated to pending'')
   \<and> map po_status (purchase_orders (snd (snd (status_race toy_libs toy_env toy_env toy_store
          (status_request (Some ''Bearer jwt.ada@example.com'') (po_id draft_po) ''cancelled'')
          (status_request (Some ''Bearer jwt.ada@example.com'') (po_id draft_po) ''pending'')))))
     = [''pending'']
   \<and> map po_status (purchase_orders (snd (status_handler toy_libs toy_env toy_store
          (status_request (Some ''Bearer jwt.ada@example.com'') (po_id draft_po) ''cancelled''))))
     = [''cancelled'']
   \<and> transition_check ''cancelled'' ''pending'' = Inr False"
  by (simp add: toy_defs)

end
